theory Spec2Isabelle
  imports Main "HOL-Library.FSet" "HOL-Library.Word"
begin

section \<open>Name allocation: \<open>NameGenerator\<close> (utils/generator.js)\<close>

text \<open>
  JavaScript strings are modelled as \<open>string\<close>. The counter \<open>uidCounter\<close> is a JavaScript
  number that starts at 0 and is only ever incremented by one; it is modelled as a natural
  number (increments are exact below \<open>2 ^ 53\<close>, a count of calls no run reaches).
\<close>

subsection \<open>The library function \<open>base62.encode\<close>\<close>

text \<open>
  \<open>base62.encode\<close> belongs to the npm package \<open>base62\<close>, not to the repository. Its
  published algorithm is transcribed: the digit alphabet is \<open>0-9a-zA-Z\<close>, zero encodes as
  \<open>"0"\<close>, and a positive integer is encoded most significant digit first.
\<close>

definition base62_chars :: string where
  "base62_chars = ''0123456789abcdefghijklmnopqrstuvwxyzABCDEFGHIJKLMNOPQRSTUVWXYZ''"

function base62_loop :: "nat \<Rightarrow> string \<Rightarrow> string" where
  "base62_loop n s =
     (if n > 0 then base62_loop (n div 62) (base62_chars ! (n mod 62) # s) else s)"
  by pat_completeness auto
termination
  by (relation "measure (\<lambda>(n, s). n)") auto

declare base62_loop.simps [simp del]

definition base62_encode :: "nat \<Rightarrow> string" where
  "base62_encode n = (if n = 0 then ''0'' else base62_loop n [])"

lemma base62_chars_length: "length base62_chars = 62"
  by (simp add: base62_chars_def)

lemma base62_chars_distinct: "distinct base62_chars"
  by (simp add: base62_chars_def)

lemma base62_chars_no_underscore: "CHR ''_'' \<notin> set base62_chars"
  by (simp add: base62_chars_def)

lemma base62_chars_zero: "base62_chars ! 0 = CHR ''0''"
  by (simp add: base62_chars_def)

lemma base62_digit_inj:
  assumes "i < 62" and "j < 62" and "base62_chars ! i = base62_chars ! j"
  shows "i = j"
  using assms base62_chars_distinct base62_chars_length
  by (simp add: nth_eq_iff_index_eq)

lemma base62_loop_zero: "base62_loop 0 s = s"
  by (subst base62_loop.simps) simp

lemma base62_loop_step:
  "n > 0 \<Longrightarrow> base62_loop n s = base62_loop (n div 62) (base62_chars ! (n mod 62) # s)"
  by (subst base62_loop.simps) simp

lemma base62_loop_acc: "base62_loop n s = base62_loop n [] @ s"
proof (induction n arbitrary: s rule: less_induct)
  case (less n)
  show ?case
  proof (cases "n > 0")
    case True
    then have lt: "n div 62 < n" by simp
    have "base62_loop n s = base62_loop (n div 62) [] @ (base62_chars ! (n mod 62) # s)"
      using base62_loop_step [OF True, of s]
        less.IH [OF lt, of "base62_chars ! (n mod 62) # s"] by simp
    moreover have "base62_loop n [] = base62_loop (n div 62) [] @ [base62_chars ! (n mod 62)]"
      using base62_loop_step [OF True, of "[]"]
        less.IH [OF lt, of "[base62_chars ! (n mod 62)]"] by simp
    ultimately show ?thesis by simp
  next
    case False
    then show ?thesis by (simp add: base62_loop_zero)
  qed
qed

lemma base62_loop_pos:
  "n > 0 \<Longrightarrow> base62_loop n [] = base62_loop (n div 62) [] @ [base62_chars ! (n mod 62)]"
  using base62_loop_acc [of "n div 62" "[base62_chars ! (n mod 62)]"]
  by (simp add: base62_loop_step)

lemma base62_loop_nonempty: "n > 0 \<Longrightarrow> base62_loop n [] \<noteq> []"
  by (simp add: base62_loop_pos)

lemma base62_loop_inj: "base62_loop n [] = base62_loop m [] \<Longrightarrow> n = m"
proof (induction n arbitrary: m rule: less_induct)
  case (less n)
  show ?case
  proof (cases "n > 0")
    case False
    then have n0: "n = 0" by simp
    have "base62_loop m [] = []" using less.prems unfolding n0 base62_loop_zero by simp
    then have "m = 0" using base62_loop_nonempty [of m] by (cases "m = 0") simp_all
    with n0 show ?thesis by simp
  next
    case True
    have m: "m > 0"
    proof (rule ccontr)
      assume "\<not> m > 0"
      then have "m = 0" by simp
      then have "base62_loop n [] = []" using less.prems by (simp add: base62_loop_zero)
      then show False using base62_loop_nonempty [OF True] by simp
    qed
    have eq: "base62_loop (n div 62) [] @ [base62_chars ! (n mod 62)]
        = base62_loop (m div 62) [] @ [base62_chars ! (m mod 62)]"
      unfolding base62_loop_pos [OF True, symmetric] base62_loop_pos [OF m, symmetric]
      by (rule less.prems)
    then have hi: "base62_loop (n div 62) [] = base62_loop (m div 62) []"
      and lo: "base62_chars ! (n mod 62) = base62_chars ! (m mod 62)"
      by simp_all
    have "n div 62 < n" using True by simp
    then have d: "n div 62 = m div 62" using less.IH hi by blast
    have r: "n mod 62 = m mod 62" using lo by (intro base62_digit_inj) simp_all
    have "n = n div 62 * 62 + n mod 62" by simp
    also have "\<dots> = m div 62 * 62 + m mod 62" by (simp only: d r)
    also have "\<dots> = m" by simp
    finally show ?thesis .
  qed
qed

lemma base62_encode_inj: "base62_encode n = base62_encode m \<Longrightarrow> n = m"
proof -
  have one: "k > 0 \<Longrightarrow> base62_loop k [] \<noteq> ''0''" for k
  proof
    assume k: "k > 0" and e: "base62_loop k [] = ''0''"
    from e base62_loop_pos [OF k]
    have hi: "base62_loop (k div 62) [] = []" and lo: "base62_chars ! (k mod 62) = CHR ''0''"
      by (simp_all add: append_eq_Cons_conv)
    have "k div 62 = 0"
      using hi base62_loop_nonempty [of "k div 62"] by (cases "k div 62 = 0") simp_all
    moreover have "k mod 62 = 0"
      using lo base62_chars_zero by (intro base62_digit_inj) simp_all
    ultimately have "k = 0" using div_mult_mod_eq [of k 62] by simp
    then show False using k by simp
  qed
  assume "base62_encode n = base62_encode m"
  then show ?thesis
    using one [of n] one [of m] base62_loop_inj [of n m]
    by (auto simp: base62_encode_def split: if_splits)
qed

lemma base62_loop_chars: "set (base62_loop n []) \<subseteq> set base62_chars"
proof (induction n rule: less_induct)
  case (less n)
  show ?case
  proof (cases "n > 0")
    case True
    have "base62_chars ! (n mod 62) \<in> set base62_chars"
      by (simp add: base62_chars_length)
    moreover have "set (base62_loop (n div 62) []) \<subseteq> set base62_chars"
      using less.IH [of "n div 62"] True by simp
    ultimately show ?thesis by (simp add: base62_loop_pos [OF True])
  next
    case False
    then show ?thesis by (simp add: base62_loop_zero)
  qed
qed

lemma base62_encode_chars: "set (base62_encode n) \<subseteq> set base62_chars"
  using base62_loop_chars [of n]
  by (auto simp: base62_encode_def base62_chars_def)

lemma base62_encode_no_underscore: "CHR ''_'' \<notin> set (base62_encode n)"
  using base62_encode_chars [of n] base62_chars_no_underscore by blast

subsection \<open>The class \<open>NameGenerator\<close>\<close>

text \<open>
  \<open>forbiddenNames\<close> is a JavaScript \<open>Set\<close> of strings: a finite set. The optional
  argument \<open>debugSuffix\<close> of \<open>generate\<close> is a \<open>string option\<close>; \<open>None\<close> stands for
  \<open>null\<close> and \<open>undefined\<close>.
\<close>

record NameGenerator =
  prefix :: string
  uidCounter :: nat
  debugNames :: bool
  forbiddenNames :: "string fset"
  uniqueSuffix :: string

text \<open>\<open>debugSuffix.replace(/[.,:]/g, "_")\<close>\<close>

definition replace_debug_chars :: "string \<Rightarrow> string" where
  "replace_debug_chars d =
     map (\<lambda>c. if c = CHR ''.'' \<or> c = CHR '','' \<or> c = CHR '':'' then CHR ''_'' else c) d"

text \<open>
  The body of the \<open>do\<close> block of \<open>generate\<close>, for the counter value \<open>c\<close> read by
  \<open>this.uidCounter++\<close>. The empty string is falsy, so \<open>if (debugSuffix)\<close> fails on it too.
\<close>

definition make_id :: "NameGenerator \<Rightarrow> string option \<Rightarrow> nat \<Rightarrow> string" where
  "make_id g debugSuffix c =
     (let id1 = prefix g @ base62_encode c;
          id2 = (if length (uniqueSuffix g) > 0 then id1 @ uniqueSuffix g else id1)
      in if debugNames g then
           (case debugSuffix of
              Some d \<Rightarrow> if d \<noteq> [] then id2 @ ''_'' @ replace_debug_chars d else id2 @ ''_''
            | None \<Rightarrow> id2 @ ''_'')
         else id2)"

lemma make_id_shape:
  "make_id g d c = prefix g @ base62_encode c @ uniqueSuffix g @
     (if debugNames g then CHR ''_'' # (case d of Some x \<Rightarrow> replace_debug_chars x | None \<Rightarrow> []) else [])"
  by (cases d) (auto simp: make_id_def Let_def replace_debug_chars_def)

lemma takeWhile_until_mark:
  "takeWhile (\<lambda>c. c \<noteq> m) (u @ m # x) = takeWhile (\<lambda>c. c \<noteq> m) u"
  by (induction u) auto

lemma takeWhile_skip_unmarked:
  "m \<notin> set a \<Longrightarrow> takeWhile (\<lambda>c. c \<noteq> m) (a @ r) = a @ takeWhile (\<lambda>c. c \<noteq> m) r"
  by (induction a) auto

lemma marked_suffix_cancel:
  assumes "m \<notin> set a" and "m \<notin> set b" and "a @ u @ m # x = b @ u @ m # y"
  shows "a = b"
proof -
  let ?P = "\<lambda>c. c \<noteq> m"
  have "takeWhile ?P (a @ u @ m # x) = a @ takeWhile ?P u"
    using assms(1) by (simp add: takeWhile_skip_unmarked takeWhile_until_mark)
  moreover have "takeWhile ?P (b @ u @ m # y) = b @ takeWhile ?P u"
    using assms(2) by (simp add: takeWhile_skip_unmarked takeWhile_until_mark)
  ultimately have "a @ takeWhile ?P u = b @ takeWhile ?P u"
    using assms(3) by simp
  then show ?thesis by simp
qed

lemma make_id_inj:
  assumes "make_id g d1 c1 = make_id g d2 c2"
  shows "c1 = c2"
proof -
  have "base62_encode c1 = base62_encode c2"
  proof (cases "debugNames g")
    case False
    then show ?thesis using assms by (simp add: make_id_shape)
  next
    case True
    then show ?thesis
      using assms base62_encode_no_underscore [of c1] base62_encode_no_underscore [of c2]
      by (simp add: make_id_shape) (erule marked_suffix_cancel [rotated 2]; assumption)
  qed
  then show ?thesis by (rule base62_encode_inj)
qed

lemma make_id_counter_irrelevant [simp]:
  "make_id (g\<lparr>uidCounter := k\<rparr>) d c = make_id g d c"
  by (cases d) (simp_all add: make_id_def Let_def)

text \<open>
  \<open>generate\<close>: the \<open>do ... while (this.forbiddenNames.has(id))\<close> loop. It returns the
  identifier and the generator with its advanced counter. The loop ends because the candidates
  of distinct counter values are distinct and the forbidden set is finite.
\<close>

function generate :: "NameGenerator \<Rightarrow> string option \<Rightarrow> string \<times> NameGenerator" where
  "generate g debugSuffix =
     (let ident = make_id g debugSuffix (uidCounter g);
          g' = g\<lparr>uidCounter := uidCounter g + 1\<rparr>
      in if ident |\<in>| forbiddenNames g' then generate g' debugSuffix else (ident, g'))"
  by pat_completeness auto
termination
proof (relation "measure (\<lambda>(g, d). card (fset (forbiddenNames g) \<inter> make_id g d ` {uidCounter g..}))")
  show "wf (measure (\<lambda>(g, d). card (fset (forbiddenNames g) \<inter> make_id g d ` {uidCounter g..})))"
    by simp
next
  fix g :: NameGenerator and debugSuffix ident g'
  assume ident: "ident = make_id g debugSuffix (uidCounter g)"
    and g': "g' = g\<lparr>uidCounter := uidCounter g + 1\<rparr>"
    and forbidden: "ident |\<in>| forbiddenNames g'"
  let ?F = "fset (forbiddenNames g)"
  let ?A = "?F \<inter> make_id g debugSuffix ` {uidCounter g..}"
  let ?B = "?F \<inter> make_id g debugSuffix ` {uidCounter g + 1..}"
  have "ident \<notin> make_id g debugSuffix ` {uidCounter g + 1..}"
    using ident by (auto dest: make_id_inj)
  moreover have "ident \<in> ?A" using ident forbidden g' by auto
  moreover have "?B \<subseteq> ?A" by auto
  ultimately have "?B \<subset> ?A" by blast
  then have "card ?B < card ?A" by (intro psubset_card_mono) simp_all
  then show "((g', debugSuffix), (g, debugSuffix))
      \<in> measure (\<lambda>(g, d). card (fset (forbiddenNames g) \<inter> make_id g d ` {uidCounter g..}))"
    using g' by simp
qed

declare generate.simps [simp del]

text \<open>Successive calls of \<open>generate\<close> on one generator, one per debug suffix given.\<close>

fun generate_calls :: "NameGenerator \<Rightarrow> string option list \<Rightarrow> string list \<times> NameGenerator" where
  "generate_calls g [] = ([], g)"
| "generate_calls g (d # ds) =
     (case generate g d of (ident, g') \<Rightarrow>
        (case generate_calls g' ds of (idents, g'') \<Rightarrow> (ident # idents, g'')))"

lemma generate_result:
  "\<exists>c \<ge> uidCounter g. generate g d = (make_id g d c, g\<lparr>uidCounter := c + 1\<rparr>)
      \<and> make_id g d c |\<notin>| forbiddenNames g"
proof (induction g d rule: generate.induct)
  case (1 g d)
  let ?ident = "make_id g d (uidCounter g)"
  let ?g' = "g\<lparr>uidCounter := uidCounter g + 1\<rparr>"
  show ?case
  proof (cases "?ident |\<in>| forbiddenNames g")
    case False
    then have "generate g d = (?ident, ?g')"
      by (subst generate.simps) (simp add: Let_def)
    with False show ?thesis by auto
  next
    case True
    then have step: "generate g d = generate ?g' d"
      by (subst generate.simps) (simp add: Let_def)
    from True have "?ident |\<in>| forbiddenNames ?g'" by simp
    from "1.IH" [OF refl refl this]
    obtain c where c: "c \<ge> uidCounter ?g'"
      and r: "generate ?g' d = (make_id ?g' d c, ?g'\<lparr>uidCounter := c + 1\<rparr>)"
      and f: "make_id ?g' d c |\<notin>| forbiddenNames ?g'"
      by blast
    have "c \<ge> uidCounter g" using c by simp
    moreover have "generate g d = (make_id g d c, g\<lparr>uidCounter := c + 1\<rparr>)"
      using step r by simp
    moreover have "make_id g d c |\<notin>| forbiddenNames g" using f by simp
    ultimately show ?thesis by blast
  qed
qed

lemma make_id_prefix: "take (length (prefix g)) (make_id g d c) = prefix g"
  by (simp add: make_id_shape)

lemma generate_calls_result:
  "\<exists>k \<ge> uidCounter g. snd (generate_calls g ds) = g\<lparr>uidCounter := k\<rparr>
     \<and> distinct (fst (generate_calls g ds))
     \<and> (\<forall>i \<in> set (fst (generate_calls g ds)).
           \<exists>c d. uidCounter g \<le> c \<and> c < k \<and> i = make_id g d c \<and> i |\<notin>| forbiddenNames g)"
proof (induction ds arbitrary: g)
  case Nil
  have "g = g\<lparr>uidCounter := uidCounter g\<rparr>" by simp
  then show ?case by (intro exI [of _ "uidCounter g"]) simp
next
  case (Cons d ds)
  obtain c where c: "c \<ge> uidCounter g"
    and r: "generate g d = (make_id g d c, g\<lparr>uidCounter := c + 1\<rparr>)"
    and f: "make_id g d c |\<notin>| forbiddenNames g"
    using generate_result [of g d] by blast
  let ?g' = "g\<lparr>uidCounter := c + 1\<rparr>"
  obtain k where k: "k \<ge> uidCounter ?g'"
    and s: "snd (generate_calls ?g' ds) = ?g'\<lparr>uidCounter := k\<rparr>"
    and dist: "distinct (fst (generate_calls ?g' ds))"
    and rng: "\<forall>i \<in> set (fst (generate_calls ?g' ds)).
           \<exists>c' d'. uidCounter ?g' \<le> c' \<and> c' < k \<and> i = make_id ?g' d' c'
              \<and> i |\<notin>| forbiddenNames ?g'"
    using Cons.IH [of ?g'] by blast
  have unfold: "generate_calls g (d # ds)
      = (make_id g d c # fst (generate_calls ?g' ds), snd (generate_calls ?g' ds))"
    using r by (simp add: case_prod_beta)
  have fresh: "make_id g d c \<notin> set (fst (generate_calls ?g' ds))"
  proof
    assume "make_id g d c \<in> set (fst (generate_calls ?g' ds))"
    then obtain c' d' where "uidCounter ?g' \<le> c'" and "make_id g d c = make_id ?g' d' c'"
      using rng by blast
    then have "c + 1 \<le> c'" and "c = c'" using make_id_inj [of g d c d' c'] by simp_all
    then show False by simp
  qed
  have "k \<ge> uidCounter g" using k c by simp
  moreover have "snd (generate_calls g (d # ds)) = g\<lparr>uidCounter := k\<rparr>"
    using unfold s by simp
  moreover have "distinct (fst (generate_calls g (d # ds)))"
    using unfold dist fresh by simp
  moreover have "\<forall>i \<in> set (fst (generate_calls g (d # ds))).
      \<exists>c d. uidCounter g \<le> c \<and> c < k \<and> i = make_id g d c \<and> i |\<notin>| forbiddenNames g"
  proof
    fix i assume "i \<in> set (fst (generate_calls g (d # ds)))"
    then consider "i = make_id g d c" | "i \<in> set (fst (generate_calls ?g' ds))"
      using unfold by auto
    then show "\<exists>c d. uidCounter g \<le> c \<and> c < k \<and> i = make_id g d c \<and> i |\<notin>| forbiddenNames g"
    proof cases
      case 1
      then show ?thesis using c k f by (intro exI [of _ c] exI [of _ d]) simp
    next
      case 2
      then obtain c' d' where "uidCounter ?g' \<le> c'" "c' < k" "i = make_id ?g' d' c'"
        "i |\<notin>| forbiddenNames ?g'"
        using rng by blast
      then show ?thesis using c by (intro exI [of _ c'] exI [of _ d']) simp
    qed
  qed
  ultimately show ?case by blast
qed

text \<open>
  Claim C8. \<open>generate\<close> never returns a forbidden name; every call strictly increases
  \<open>uidCounter\<close>; the identifier begins with the generator's prefix; and the identifiers
  returned by any sequence of successive calls on one generator (whatever the debug suffixes)
  are pairwise distinct, none forbidden, each beginning with the prefix.
\<close>

theorem generate_fresh_and_distinct:
  "fst (generate g d) |\<notin>| forbiddenNames g
   \<and> uidCounter g < uidCounter (snd (generate g d))
   \<and> take (length (prefix g)) (fst (generate g d)) = prefix g
   \<and> uidCounter g \<le> uidCounter (snd (generate_calls g ds))
   \<and> distinct (fst (generate_calls g ds))
   \<and> (\<forall>i \<in> set (fst (generate_calls g ds)).
         i |\<notin>| forbiddenNames g \<and> take (length (prefix g)) i = prefix g)"
proof -
  obtain c where c: "c \<ge> uidCounter g"
    and r: "generate g d = (make_id g d c, g\<lparr>uidCounter := c + 1\<rparr>)"
    and f: "make_id g d c |\<notin>| forbiddenNames g"
    using generate_result [of g d] by blast
  obtain k where k: "k \<ge> uidCounter g"
    and s: "snd (generate_calls g ds) = g\<lparr>uidCounter := k\<rparr>"
    and dist: "distinct (fst (generate_calls g ds))"
    and rng: "\<forall>i \<in> set (fst (generate_calls g ds)).
           \<exists>c d. uidCounter g \<le> c \<and> c < k \<and> i = make_id g d c \<and> i |\<notin>| forbiddenNames g"
    using generate_calls_result [of g ds] by blast
  have "\<forall>i \<in> set (fst (generate_calls g ds)).
         i |\<notin>| forbiddenNames g \<and> take (length (prefix g)) i = prefix g"
    using rng by (auto simp: make_id_prefix)
  then show ?thesis using c r f k s dist by (simp add: make_id_prefix)
qed

definition example_names :: NameGenerator where
  "example_names = \<lparr>prefix = ''_$'', uidCounter = 0, debugNames = True,
     forbiddenNames = {|''_$0_'', ''_$2_a_b''|}, uniqueSuffix = ''''\<rparr>"

theorem generate_fresh_and_distinct_witness:
  "fst (generate example_names None) = ''_$1_''
   \<and> fst (generate example_names None) |\<notin>| forbiddenNames example_names
   \<and> uidCounter example_names < uidCounter (snd (generate example_names None))
   \<and> fst (generate_calls example_names [None, Some ''a.b'']) = [''_$1_'', ''_$3_a_b'']
   \<and> distinct (fst (generate_calls example_names [None, Some ''a.b'']))"
  using generate_fresh_and_distinct [of example_names None "[None, Some ''a.b'']"]
  by (simp add: generate.simps example_names_def make_id_def base62_encode_def
      base62_loop.simps base62_chars_def Let_def replace_debug_chars_def)

section \<open>JavaScript strings and Babel nodes\<close>

text \<open>
  \<open>String.prototype.indexOf\<close>, \<open>lastIndexOf\<close>, \<open>includes\<close> and \<open>substr\<close> with their
  default arguments: the first (last) position at which the pattern occurs, or \<open>-1\<close>.
\<close>

fun indexOf :: "string \<Rightarrow> string \<Rightarrow> int" where
  "indexOf s m =
     (if take (length m) s = m then 0
      else (case s of
              [] \<Rightarrow> -1
            | c # t \<Rightarrow> (let r = indexOf t m in if r < 0 then -1 else r + 1)))"

definition lastIndexOf :: "string \<Rightarrow> string \<Rightarrow> int" where
  "lastIndexOf s m =
     (let r = indexOf (rev s) (rev m)
      in if r < 0 then -1 else int (length s) - r - int (length m))"

definition includes_str :: "string \<Rightarrow> string \<Rightarrow> bool" where
  "includes_str s m = (indexOf s m \<noteq> -1)"

declare indexOf.simps [simp del]


text \<open>
  The nodes that \<open>babel-types\<close> builds, as far as the generator builds them. \<open>UndefinedNode\<close>
  stands for the JavaScript \<open>undefined\<close> that a destructuring pattern or \<open>pop\<close> yields for a
  missing array element.
\<close>

datatype Expr =
    Identifier string
  | ThisExpression
  | NullLiteral
  | StringLiteral string
  | NumericLiteral nat
  | MemberExpression Expr Expr bool
  | AssignmentExpression string Expr Expr
  | BinaryExpression string Expr Expr
  | LogicalExpression string Expr Expr
  | UnaryExpression string Expr
  | CallExpression Expr "Expr list"
  | NewExpression Expr "Expr list"
  | UndefinedNode

datatype Stmt =
    ExpressionStatement Expr
  | VariableDeclaration string "(Expr \<times> Expr) list"
  | IfStatement Expr Stmt
  | BlockStatement "Stmt list"
  | ThrowStatement Expr
  | ForInStatement Stmt Expr Stmt

section \<open>Values\<close>

text \<open>
  Modelled from the spec: the value classes (values/index.js) and the domains
  (domains/index.js) are not among the source files at hand. Section 3 of the specification
  gives the arms of a value; an object is a reference into the heap; an abstract value carries
  its identity, a types domain (holding the class that \<open>getType\<close> returns; the source
  builds one with \<open>new TypesDomain(StringValue)\<close> and compares \<open>getType()\<close> with the
  classes), a values domain (top, or the candidate values), a kind tag and its ordered argument
  values. Its origin template is consumed only by the residualizer and is left out. A number is
  the bit pattern of its double, which no function modelled here inspects. \<open>EmptyValue\<close> is
  \<open>realm.intrinsics.empty\<close>, the value of an empty normal completion.
\<close>

datatype ValueClass =
    Value_class | UndefinedValue_class | NullValue_class | BooleanValue_class
  | NumberValue_class | StringValue_class | SymbolValue_class | ObjectValue_class
  | FunctionValue_class

datatype TypesDomain = TypesDomain ValueClass

fun getType :: "TypesDomain \<Rightarrow> ValueClass" where
  "getType (TypesDomain c) = c"

datatype 'v ValuesDomain = TopVal | Elements "'v list"

datatype Value =
    UndefinedValue
  | NullValue
  | EmptyValue
  | BooleanValue bool
  | NumberValue "64 word"
  | StringValue string
  | SymbolValue nat
  | ObjectValue nat
  | AbstractValue nat TypesDomain "Value ValuesDomain" "string option" "Value list"

fun isTop :: "'v ValuesDomain \<Rightarrow> bool" where
  "isTop TopVal = True"
| "isTop (Elements vs) = False"

section \<open>The prelude generator (utils/generator.js)\<close>

record PreludeGenerator =
  prelude :: "Stmt list"
  derivedIds :: "string \<rightharpoonup> Value list"
  memoizedRefs :: "string \<rightharpoonup> Expr"
  nameGenerator :: NameGenerator
  usesThis :: bool
  declaredGlobals :: "string set"

text \<open>The constructor: \<open>new PreludeGenerator(debugNames, uniqueSuffix)\<close>.\<close>

definition new_PreludeGenerator :: "bool option \<Rightarrow> string option \<Rightarrow> PreludeGenerator" where
  "new_PreludeGenerator debugNames' uniqueSuffix' =
     \<lparr>prelude = [], derivedIds = Map.empty, memoizedRefs = Map.empty,
      nameGenerator = \<lparr>prefix = ''_$'', uidCounter = 0,
         debugNames = (debugNames' = Some True), forbiddenNames = {||},
         uniqueSuffix = (case uniqueSuffix' of Some u \<Rightarrow> u | None \<Rightarrow> '''')\<rparr>,
      usesThis = False, declaredGlobals = {}\<rparr>"

lemma indexOf_found: "0 \<le> indexOf s m \<Longrightarrow> indexOf s m + int (length m) \<le> int (length s)"
proof (induction s)
  case Nil
  then show ?case by (subst (asm) indexOf.simps, subst indexOf.simps) (auto split: if_splits)
next
  case (Cons c t)
  show ?case
  proof (cases "take (length m) (c # t) = m")
    case True
    then have "length (take (length m) (c # t)) = length m" by simp
    then have "length m \<le> length (c # t)" by (simp add: min_def split: if_splits)
    moreover have "indexOf (c # t) m = 0" using True by (subst indexOf.simps) simp
    ultimately show ?thesis by simp
  next
    case False
    then have e: "indexOf (c # t) m = (let r = indexOf t m in if r < 0 then -1 else r + 1)"
      by (subst indexOf.simps) simp
    with Cons.prems have "0 \<le> indexOf t m" by (simp add: Let_def split: if_splits)
    with Cons.IH e show ?thesis by (simp add: Let_def)
  qed
qed

lemma lastIndexOf_less:
  assumes "lastIndexOf s m \<noteq> -1" and "m \<noteq> []"
  shows "0 \<le> lastIndexOf s m \<and> lastIndexOf s m < int (length s)"
proof -
  let ?r = "indexOf (rev s) (rev m)"
  have r: "0 \<le> ?r" using assms(1) by (auto simp: lastIndexOf_def Let_def split: if_splits)
  then have "?r + int (length m) \<le> int (length s)" using indexOf_found [of "rev s" "rev m"] by simp
  moreover have "lastIndexOf s m = int (length s) - ?r - int (length m)"
    using r by (simp add: lastIndexOf_def Let_def)
  moreover have "0 < length m" using assms(2) by simp
  ultimately show ?thesis using r by linarith
qed

text \<open>
  \<open>memoizeReference\<close>. The cache is a JavaScript \<open>Map\<close> from strings to identifier nodes;
  a cached node is an object, hence truthy. \<open>key.substr(0, i)\<close> is \<open>take i key\<close> and
  \<open>key.substr(i + 1)\<close> is \<open>drop (i + 1) key\<close>. The recursion ends: a recursive call is on
  \<open>global\<close>, which does not recurse, or on a proper prefix of the key.
\<close>

function memoizeReference :: "string \<Rightarrow> PreludeGenerator \<Rightarrow> Expr \<times> PreludeGenerator" where
  "memoizeReference key this =
     (case memoizedRefs this key of
        Some ref \<Rightarrow> (ref, this)
      | None \<Rightarrow>
         (case
            (if includes_str key ''('' \<or> includes_str key ''['' then (Identifier key, this)
             else if key = ''global'' then (ThisExpression, this\<lparr>usesThis := True\<rparr>)
             else (let i = lastIndexOf key ''.'' in
                   if i = -1 then
                     (case memoizeReference ''global'' this of
                        (g, this') \<Rightarrow> (MemberExpression g (Identifier key) False, this'))
                   else
                     (case memoizeReference (take (nat i) key) this of
                        (r, this') \<Rightarrow>
                          (MemberExpression r (Identifier (drop (nat (i + 1)) key)) False, this'))))
          of (init, this1) \<Rightarrow>
            (case generate (nameGenerator this1) (Some key) of
               (name, ng) \<Rightarrow>
                 (let ref = Identifier name
                  in (ref, this1\<lparr>nameGenerator := ng,
                        prelude := prelude this1 @ [VariableDeclaration ''var'' [(ref, init)]],
                        memoizedRefs := (memoizedRefs this1)(key \<mapsto> ref)\<rparr>)))))"
  by pat_completeness auto
termination
proof (relation "measure (\<lambda>(key, this). if key = ''global'' then 0 else Suc (length key))")
  show "wf (measure (\<lambda>(key, this :: PreludeGenerator). if key = ''global'' then 0 else Suc (length key)))"
    by simp
next
  fix key :: string and this :: PreludeGenerator
  assume "key \<noteq> ''global''"
  then show "((''global'', this), (key, this))
     \<in> measure (\<lambda>(key, this). if key = ''global'' then 0 else Suc (length key))"
    by simp
next
  fix key :: string and this :: PreludeGenerator and i :: int
  assume ng: "key \<noteq> ''global''" and "i = lastIndexOf key ''.''" and "i \<noteq> -1"
  then have "0 \<le> i \<and> i < int (length key)" using lastIndexOf_less [of key "''.''"] by simp
  then have lt: "nat i < length key" by linarith
  then have "length (take (nat i) key) < length key" by (simp add: min_def)
  then show "((take (nat i) key, this), (key, this))
     \<in> measure (\<lambda>(key, this). if key = ''global'' then 0 else Suc (length key))"
    using ng lt by simp
qed

declare memoizeReference.simps [simp del]

lemma memoizeReference_cached:
  "memoizedRefs p key = Some ref \<Longrightarrow> memoizeReference key p = (ref, p)"
  by (subst memoizeReference.simps) simp

text \<open>
  What one call establishes, from the generator \<open>p\<close> before it to the result \<open>r\<close>: the key
  is cached with the identifier returned, the cache only grows, the prelude only grows, by one
  declaration for each reference newly cached, and the newly cached references are the key,
  \<open>global\<close> and shorter keys.
\<close>

definition memo_inv :: "string \<Rightarrow> PreludeGenerator \<Rightarrow> Expr \<times> PreludeGenerator \<Rightarrow> bool" where
  "memo_inv key p r \<longleftrightarrow>
     memoizedRefs (snd r) key = Some (fst r)
     \<and> memoizedRefs p \<subseteq>\<^sub>m memoizedRefs (snd r)
     \<and> finite (dom (memoizedRefs (snd r)) - dom (memoizedRefs p))
     \<and> (\<exists>ds. prelude (snd r) = prelude p @ ds
            \<and> length ds = card (dom (memoizedRefs (snd r)) - dom (memoizedRefs p))
            \<and> (memoizedRefs p key = None \<longrightarrow>
                  (\<exists>init. ds \<noteq> [] \<and> last ds = VariableDeclaration ''var'' [(fst r, init)])))
     \<and> (\<forall>k \<in> dom (memoizedRefs (snd r)) - dom (memoizedRefs p).
            k = ''global'' \<or> (key \<noteq> ''global'' \<and> length k \<le> length key))"

text \<open>The last four statements of \<open>memoizeReference\<close>, once \<open>init\<close> is built.\<close>

definition memoize_finish :: "string \<Rightarrow> Expr \<Rightarrow> PreludeGenerator \<Rightarrow> Expr \<times> PreludeGenerator" where
  "memoize_finish key init this1 =
     (case generate (nameGenerator this1) (Some key) of
        (name, ng) \<Rightarrow>
          (let ref = Identifier name
           in (ref, this1\<lparr>nameGenerator := ng,
                 prelude := prelude this1 @ [VariableDeclaration ''var'' [(ref, init)]],
                 memoizedRefs := (memoizedRefs this1)(key \<mapsto> ref)\<rparr>)))"

lemma memoizeReference_uncached:
  assumes "memoizedRefs p key = None"
  shows "memoizeReference key p =
     (if includes_str key ''('' \<or> includes_str key ''['' then memoize_finish key (Identifier key) p
      else if key = ''global'' then memoize_finish key ThisExpression (p\<lparr>usesThis := True\<rparr>)
      else if lastIndexOf key ''.'' = -1 then
        memoize_finish key
          (MemberExpression (fst (memoizeReference ''global'' p)) (Identifier key) False)
          (snd (memoizeReference ''global'' p))
      else
        memoize_finish key
          (MemberExpression (fst (memoizeReference (take (nat (lastIndexOf key ''.'')) key) p))
             (Identifier (drop (nat (lastIndexOf key ''.'' + 1)) key)) False)
          (snd (memoizeReference (take (nat (lastIndexOf key ''.'')) key) p)))"
  using assms
  by (subst memoizeReference.simps) (simp add: memoize_finish_def Let_def case_prod_beta)

lemma memoize_finish_inv:
  assumes sub: "memoizedRefs p \<subseteq>\<^sub>m memoizedRefs p1"
    and fin: "finite (dom (memoizedRefs p1) - dom (memoizedRefs p))"
    and pre: "prelude p1 = prelude p @ ds1"
    and len: "length ds1 = card (dom (memoizedRefs p1) - dom (memoizedRefs p))"
    and new: "\<forall>k \<in> dom (memoizedRefs p1) - dom (memoizedRefs p).
                k = ''global'' \<or> (key \<noteq> ''global'' \<and> length k < length key)"
    and unc: "memoizedRefs p1 key = None"
  shows "memo_inv key p (memoize_finish key init p1)"
proof -
  obtain name ng where g: "generate (nameGenerator p1) (Some key) = (name, ng)"
    by (cases "generate (nameGenerator p1) (Some key)")
  let ?ref = "Identifier name"
  let ?decl = "VariableDeclaration ''var'' [(?ref, init)]"
  let ?p' = "p1\<lparr>nameGenerator := ng, prelude := prelude p1 @ [?decl],
                 memoizedRefs := (memoizedRefs p1)(key \<mapsto> ?ref)\<rparr>"
  have r: "memoize_finish key init p1 = (?ref, ?p')"
    using g by (simp add: memoize_finish_def Let_def)
  let ?old = "dom (memoizedRefs p1) - dom (memoizedRefs p)"
  have uncp: "memoizedRefs p key = None"
    using sub unc by (metis domIff map_le_def option.distinct(1))
  have dom': "dom (memoizedRefs ?p') - dom (memoizedRefs p) = insert key ?old"
    using uncp by auto
  have notin: "key \<notin> ?old" using unc by auto
  have "memoizedRefs ?p' key = Some ?ref" by simp
  moreover have "memoizedRefs p \<subseteq>\<^sub>m memoizedRefs ?p'"
    using sub uncp by (auto simp: map_le_def)
  moreover have "finite (dom (memoizedRefs ?p') - dom (memoizedRefs p))"
    using fin dom' by simp
  moreover have "prelude ?p' = prelude p @ (ds1 @ [?decl])" using pre by simp
  moreover have "length (ds1 @ [?decl]) = card (dom (memoizedRefs ?p') - dom (memoizedRefs p))"
    using len fin notin dom' by simp
  moreover have "ds1 @ [?decl] \<noteq> [] \<and> last (ds1 @ [?decl]) = ?decl" by simp
  moreover have "\<forall>k \<in> dom (memoizedRefs ?p') - dom (memoizedRefs p).
      k = ''global'' \<or> (key \<noteq> ''global'' \<and> length k \<le> length key)"
    unfolding dom' using new by auto
  ultimately show ?thesis
    unfolding memo_inv_def r fst_conv snd_conv by blast
qed

lemma memoizeReference_inv: "memo_inv key p (memoizeReference key p)"
proof (induction key p rule: memoizeReference.induct)
  case (1 key p)
  show ?case
  proof (cases "memoizedRefs p key")
    case (Some ref)
    then show ?thesis
      by (simp add: memoizeReference_cached memo_inv_def)
  next
    case None
    note eq = memoizeReference_uncached [OF None]
    consider (direct) "includes_str key ''('' \<or> includes_str key ''[''"
      | (global) "\<not> (includes_str key ''('' \<or> includes_str key ''['')" "key = ''global''"
      | (nodot) "\<not> (includes_str key ''('' \<or> includes_str key ''['')" "key \<noteq> ''global''"
          "lastIndexOf key ''.'' = -1"
      | (dotted) "\<not> (includes_str key ''('' \<or> includes_str key ''['')" "key \<noteq> ''global''"
          "lastIndexOf key ''.'' \<noteq> -1"
      by blast
    then show ?thesis
    proof cases
      case direct
      have "memo_inv key p (memoize_finish key (Identifier key) p)"
        by (rule memoize_finish_inv [where ?ds1.0 = "[]"]) (simp_all add: None)
      then show ?thesis using eq direct by simp
    next
      case global
      have "memo_inv key p (memoize_finish key ThisExpression (p\<lparr>usesThis := True\<rparr>))"
        by (rule memoize_finish_inv [where ?ds1.0 = "[]"]) (simp_all add: None)
      then show ?thesis using eq global by simp
    next
      case nodot
      let ?r = "memoizeReference ''global'' p"
      have ih: "memo_inv ''global'' p ?r"
        using "1.IH"(1) [OF None _ nodot(2) refl nodot(3)] nodot(1) by simp
      then obtain ds where ds: "prelude (snd ?r) = prelude p @ ds"
        "length ds = card (dom (memoizedRefs (snd ?r)) - dom (memoizedRefs p))"
        unfolding memo_inv_def by blast
      have sub: "memoizedRefs p \<subseteq>\<^sub>m memoizedRefs (snd ?r)"
        and fin: "finite (dom (memoizedRefs (snd ?r)) - dom (memoizedRefs p))"
        using ih unfolding memo_inv_def by blast+
      have new: "\<forall>k \<in> dom (memoizedRefs (snd ?r)) - dom (memoizedRefs p). k = ''global''"
        using ih unfolding memo_inv_def by blast
      then have new': "\<forall>k \<in> dom (memoizedRefs (snd ?r)) - dom (memoizedRefs p).
          k = ''global'' \<or> (key \<noteq> ''global'' \<and> length k < length key)"
        by blast
      have "memoizedRefs (snd ?r) key = None"
        using new None nodot(2) by (cases "memoizedRefs (snd ?r) key") auto
      then have "memo_inv key p (memoize_finish key
          (MemberExpression (fst ?r) (Identifier key) False) (snd ?r))"
        by (rule memoize_finish_inv [OF sub fin ds(1) ds(2) new'])
      then show ?thesis using eq nodot by simp
    next
      case dotted
      let ?i = "lastIndexOf key ''.''"
      let ?parent = "take (nat ?i) key"
      let ?r = "memoizeReference ?parent p"
      have "0 \<le> ?i \<and> ?i < int (length key)"
        using lastIndexOf_less [of key "''.''"] dotted(3) by simp
      then have "nat ?i < length key" by linarith
      then have shorter: "length ?parent < length key" by (simp add: min_def)
      have ih: "memo_inv ?parent p ?r"
        using "1.IH"(2) [OF None _ dotted(2) refl dotted(3)] dotted(1) by simp
      then obtain ds where ds: "prelude (snd ?r) = prelude p @ ds"
        "length ds = card (dom (memoizedRefs (snd ?r)) - dom (memoizedRefs p))"
        unfolding memo_inv_def by blast
      have sub: "memoizedRefs p \<subseteq>\<^sub>m memoizedRefs (snd ?r)"
        and fin: "finite (dom (memoizedRefs (snd ?r)) - dom (memoizedRefs p))"
        using ih unfolding memo_inv_def by blast+
      have new: "\<forall>k \<in> dom (memoizedRefs (snd ?r)) - dom (memoizedRefs p).
          k = ''global'' \<or> (key \<noteq> ''global'' \<and> length k < length key)"
        using ih shorter dotted(2) unfolding memo_inv_def by fastforce
      have "memoizedRefs (snd ?r) key = None"
        using new None dotted(2) by (cases "memoizedRefs (snd ?r) key") auto
      then have "memo_inv key p (memoize_finish key
          (MemberExpression (fst ?r) (Identifier (drop (nat (?i + 1)) key)) False) (snd ?r))"
        by (rule memoize_finish_inv [OF sub fin ds(1) ds(2) new])
      then show ?thesis using eq dotted by simp
    qed
  qed
qed

text \<open>
  Claim C9 (as amended). \<open>memoizeReference\<close> is memoizing. After a call the key is cached
  with the identifier returned, and a second call with the same key returns that identical
  identifier and changes nothing (calling twice equals calling once). A call on a cached key
  returns the cached identifier and changes nothing. A call on a key not yet cached pushes the
  key's own var declaration last, after one var declaration for every other reference it
  memoizes on the way (\<open>global\<close> and the dotted prefixes of the key not cached before): the
  number of declarations pushed is the number of references newly cached, and it is exactly
  one when the key is \<open>global\<close> or contains \<open>(\<close> or \<open>[\<close>.
\<close>

theorem memoizeReference_memoizing:
  assumes "memoizeReference key p = (ref, p')"
  shows "memoizedRefs p' key = Some ref
    \<and> memoizeReference key p' = (ref, p')
    \<and> (memoizedRefs p key \<noteq> None \<longrightarrow> memoizedRefs p key = Some ref \<and> p' = p)
    \<and> (memoizedRefs p key = None \<longrightarrow>
          (\<exists>ds init. prelude p' = prelude p @ ds @ [VariableDeclaration ''var'' [(ref, init)]]
             \<and> length ds + 1 = card (dom (memoizedRefs p') - dom (memoizedRefs p))
             \<and> (includes_str key ''('' \<or> includes_str key ''['' \<or> key = ''global''
                  \<longrightarrow> ds = [])))"
proof -
  have inv: "memo_inv key p (ref, p')"
    using memoizeReference_inv [of key p] assms by simp
  then have cached: "memoizedRefs p' key = Some ref"
    by (simp add: memo_inv_def)
  then have again: "memoizeReference key p' = (ref, p')"
    by (rule memoizeReference_cached)
  have hit: "memoizedRefs p key \<noteq> None \<longrightarrow> memoizedRefs p key = Some ref \<and> p' = p"
    using assms by (auto simp: memoizeReference_cached)
  have miss: "\<exists>ds init. prelude p' = prelude p @ ds @ [VariableDeclaration ''var'' [(ref, init)]]
             \<and> length ds + 1 = card (dom (memoizedRefs p') - dom (memoizedRefs p))
             \<and> (includes_str key ''('' \<or> includes_str key ''['' \<or> key = ''global''
                  \<longrightarrow> ds = [])"
    if None: "memoizedRefs p key = None"
  proof -
    from inv None obtain ds0 init where ds0: "prelude p' = prelude p @ ds0"
      "length ds0 = card (dom (memoizedRefs p') - dom (memoizedRefs p))"
      "ds0 \<noteq> []" "last ds0 = VariableDeclaration ''var'' [(ref, init)]"
      unfolding memo_inv_def fst_conv snd_conv by blast
    let ?ds = "butlast ds0"
    have split: "ds0 = ?ds @ [VariableDeclaration ''var'' [(ref, init)]]"
      using ds0(3,4) by (metis append_butlast_last_id)
    have one: "?ds = []"
      if direct: "includes_str key ''('' \<or> includes_str key ''['' \<or> key = ''global''"
    proof -
      have "length (prelude p') = length (prelude p) + 1"
        using direct assms memoizeReference_uncached [OF None]
        by (auto simp: memoize_finish_def Let_def case_prod_beta split: if_splits)
      then have "length ds0 = 1" using ds0(1) by simp
      then show ?thesis by (cases ds0) simp_all
    qed
    have "prelude p' = prelude p @ ?ds @ [VariableDeclaration ''var'' [(ref, init)]]"
      using ds0(1) split by simp
    moreover have "length ?ds + 1 = length ds0"
      using ds0(3) by (cases ds0) simp_all
    then have "length ?ds + 1 = card (dom (memoizedRefs p') - dom (memoizedRefs p))"
      using ds0(2) by simp
    ultimately show ?thesis using one by blast
  qed
  show ?thesis using cached again hit miss by blast
qed

definition example_prelude :: PreludeGenerator where
  "example_prelude = new_PreludeGenerator None None"

lemma example_prelude_Object:
  "fst (memoizeReference ''Object'' example_prelude) = Identifier ''_$1''
   \<and> prelude (snd (memoizeReference ''Object'' example_prelude)) =
       [VariableDeclaration ''var'' [(Identifier ''_$0'', ThisExpression)],
        VariableDeclaration ''var''
          [(Identifier ''_$1'', MemberExpression (Identifier ''_$0'') (Identifier ''Object'') False)]]"
  by (simp add: memoizeReference.simps example_prelude_def new_PreludeGenerator_def
      includes_str_def indexOf.simps lastIndexOf_def generate.simps make_id_def
      base62_encode_def base62_loop.simps base62_chars_def Let_def)

theorem memoizeReference_memoizing_witness:
  "memoizedRefs (snd (memoizeReference ''Object'' example_prelude)) ''Object''
      = Some (Identifier ''_$1'')
   \<and> memoizeReference ''Object'' (snd (memoizeReference ''Object'' example_prelude))
      = memoizeReference ''Object'' example_prelude
   \<and> card (dom (memoizedRefs (snd (memoizeReference ''Object'' example_prelude)))
            - dom (memoizedRefs example_prelude)) = 2"
  using memoizeReference_memoizing [of "''Object''" example_prelude
      "fst (memoizeReference ''Object'' example_prelude)"
      "snd (memoizeReference ''Object'' example_prelude)"] example_prelude_Object
  by (auto simp: example_prelude_def new_PreludeGenerator_def)

text \<open>
  Claim C9 as stated fails: the first call for the key \<open>Object\<close> on a fresh prelude
  generator pushes two var declarations, one for \<open>global\<close> and one for \<open>Object\<close>, not
  exactly one.
\<close>

theorem memoizeReference_first_call_counterexample:
  "memoizedRefs example_prelude ''Object'' = None
   \<and> length (prelude (snd (memoizeReference ''Object'' example_prelude)))
       \<noteq> length (prelude example_prelude) + 1"
  using example_prelude_Object
  by (simp add: example_prelude_def new_PreludeGenerator_def)

section \<open>Descriptors, thrown values and the realm\<close>

text \<open>
  Modelled from the spec: a property descriptor (types.js) has the optional attributes of
  section 3; an attribute that is absent is \<open>None\<close>. Its fields \<open>value\<close>, \<open>get\<close> and \<open>set\<close>
  are named \<open>desc_value\<close>, \<open>desc_get\<close> and \<open>desc_set\<close> here.
\<close>

record Descriptor =
  writable :: "bool option"
  enumerable :: "bool option"
  configurable :: "bool option"
  desc_value :: "Value option"
  desc_get :: "Value option"
  desc_set :: "Value option"

text \<open>
  JavaScript truthiness of an optional boolean (\<open>undefined\<close> and \<open>false\<close> are falsy) and of an
  optional object reference (any object is truthy, \<open>undefined\<close> is falsy).
\<close>

definition truthy :: "bool option \<Rightarrow> bool" where
  "truthy b = (case b of Some t \<Rightarrow> t | None \<Rightarrow> False)"

definition truthy_ref :: "'a option \<Rightarrow> bool" where
  "truthy_ref r = (case r of Some x \<Rightarrow> True | None \<Rightarrow> False)"

text \<open>
  What the code throws. Modelled from the spec: \<open>createErrorThrowCompletion\<close> (realm.js) and
  \<open>Construct\<close> of an error constructor (methods/construct.js) give a throw completion carrying
  an error object of the given intrinsic constructor with the given message (section 7); a
  failed \<open>invariant(...)\<close> (invariant.js) throws an error that is no completion.
\<close>

datatype ErrorType = ReferenceError | SyntaxError | TypeError

record SourceLocation =
  line :: nat
  column :: nat

record LocationData =
  filename :: string
  sourceCode :: string
  loc :: "SourceLocation option"
  stackDecorated :: bool

record ErrorObject =
  errorType :: ErrorType
  message :: "string option"
  locationData :: "LocationData option"

datatype Thrown =
    ThrowCompletion ErrorObject "SourceLocation option"
  | BreakCompletion Value "string option"
  | FatalError
  | InvariantViolation
  | OtherException string

definition createErrorThrowCompletion :: "ErrorType \<Rightarrow> string option \<Rightarrow> Thrown" where
  "createErrorThrowCompletion type msg =
     ThrowCompletion \<lparr>errorType = type, message = msg, locationData = None\<rparr> None"

text \<open>
  A binding of a declarative environment record (the type \<open>Binding\<close> of environment.js; its
  field \<open>value\<close> is named \<open>value'\<close>; \<open>CreateImmutableBinding\<close> also stores \<open>strict\<close>), and
  the record itself: \<open>bindings\<close> is an object without prototype used as a dictionary.
\<close>

record Binding =
  value' :: "Value option"
  initialized :: "bool option"
  mutable :: "bool option"
  deletable :: "bool option"
  strict :: "bool option"

record DeclarativeEnvironmentRecord =
  bindings :: "string \<rightharpoonup> Binding"
  isReadOnly :: bool

datatype EnvironmentRecord =
    Declarative DeclarativeEnvironmentRecord
  | OtherEnvironmentRecord nat

datatype LexicalEnvironment =
  LexicalEnvironment EnvironmentRecord "LexicalEnvironment option"

text \<open>
  Modelled from the spec: a diagnostic (errors.js) is the record of section 6, its severity
  one of the strings \<open>FatalError\<close>, \<open>RecoverableError\<close>, \<open>Warning\<close>, \<open>Information\<close>. An object
  of the heap (values/ObjectValue.js) has its properties in insertion order and the two bits
  \<open>partial\<close> and \<open>simple\<close> of section 3.
\<close>

record CompilerDiagnostic =
  diagnosticMessage :: string
  location :: "SourceLocation option"
  errorCode :: string
  severity :: string

record ObjectRecord =
  properties :: "(string \<times> Descriptor) list"
  partial :: bool
  simple :: bool

text \<open>
  Modelled from the spec: the part of the realm (realm.js) that the modelled code reads and
  writes. \<open>nextAbstractId\<close> numbers the abstract values minted; \<open>handledErrors\<close> lists the
  diagnostics passed to the error handler; \<open>modifiedBindings\<close> is the modification log of
  bindings; \<open>heap\<close> is the arena of objects, an object reference being its index
  (section 9); \<open>lexicalEnvironment\<close> is that of the running execution context.
\<close>

record Realm =
  nextAbstractId :: nat
  handledErrors :: "CompilerDiagnostic list"
  modifiedBindings :: "(Binding \<times> Value option) list"
  heap :: "nat \<Rightarrow> ObjectRecord"
  lexicalEnvironment :: LexicalEnvironment

text \<open>
  Modelled from the spec: \<open>createAbstract\<close> mints a fresh abstract value (section 4.1);
  \<open>handleError\<close> invokes the realm's error handler with the diagnostic (section 6);
  \<open>recordModifiedBinding\<close> appends the binding with its prior value to the modification log
  and returns the binding (section 4.1).
\<close>

definition createAbstract ::
  "TypesDomain \<Rightarrow> Value ValuesDomain \<Rightarrow> Value list \<Rightarrow> string option \<Rightarrow> 'r Realm_scheme
     \<Rightarrow> Value \<times> 'r Realm_scheme" where
  "createAbstract types vals args' kind realm =
     (AbstractValue (nextAbstractId realm) types vals kind args',
      realm\<lparr>nextAbstractId := nextAbstractId realm + 1\<rparr>)"

definition handleError :: "CompilerDiagnostic \<Rightarrow> 'r Realm_scheme \<Rightarrow> 'r Realm_scheme" where
  "handleError diagnostic realm = realm\<lparr>handledErrors := handledErrors realm @ [diagnostic]\<rparr>"

definition recordModifiedBinding ::
  "Binding \<Rightarrow> DeclarativeEnvironmentRecord \<Rightarrow> 'r Realm_scheme \<Rightarrow> Binding \<times> 'r Realm_scheme" where
  "recordModifiedBinding binding envRec realm =
     (binding, realm\<lparr>modifiedBindings := modifiedBindings realm @ [(binding, value' binding)]\<rparr>)"

section \<open>The effect generator (utils/generator.js)\<close>

text \<open>
  The serialization context is a record of callbacks of the serializer. Each works on the
  serializer's state, of type \<open>'c\<close>: a callback takes the state and returns the changed state
  beside its result. \<open>declare\<close> is named \<open>declare'\<close>. \<open>serializeGenerator\<close>, which no function
  modelled here calls, is left out, as is the field \<open>dependencies\<close> of an entry (a list of
  generators, read by \<open>visitEntry\<close> only).
\<close>

record 'c SerializationContext =
  serializeValue :: "Value \<Rightarrow> 'c \<Rightarrow> Expr \<times> 'c"
  emitDefinePropertyBody :: "Value \<Rightarrow> string \<Rightarrow> Descriptor \<Rightarrow> 'c \<Rightarrow> Stmt \<times> 'c"
  emit :: "Stmt \<Rightarrow> 'c \<Rightarrow> 'c"
  canOmit :: "Value \<Rightarrow> 'c \<Rightarrow> bool \<times> 'c"
  declare' :: "Value \<Rightarrow> 'c \<Rightarrow> 'c"

record 'c GeneratorEntry =
  declared :: "Value option"
  args :: "Value list"
  buildNode :: "Expr list \<Rightarrow> 'c SerializationContext \<Rightarrow> 'c \<Rightarrow> Stmt \<times> 'c"
  isPure :: "bool option"

record 'c Generator =
  body :: "'c GeneratorEntry list"
  preludeGenerator :: PreludeGenerator

text \<open>
  An element of the array of nodes handed to a build function; a position beyond the end of
  the array reads as \<open>undefined\<close>.
\<close>

definition node_at :: "Expr list \<Rightarrow> nat \<Rightarrow> Expr" where
  "node_at nodes i = (if i < length nodes then nodes ! i else UndefinedNode)"

text \<open>
  \<open>getAsPropertyNameExpression\<close>. The test \<open>index >= 0 && index.toString() === key\<close> on
  \<open>index = Number.parseInt(key, 10)\<close> is floating-point arithmetic of the host, and
  \<open>t.isValidIdentifier\<close> belongs to \<open>babel-types\<close>: both are parameters. \<open>parseIndex key\<close> is
  the index when the test succeeds.
\<close>

record Host =
  parseIndex :: "string \<Rightarrow> nat option"
  isValidIdentifier :: "string \<Rightarrow> bool"

definition keyIsAscii :: "string \<Rightarrow> bool" where
  "keyIsAscii key = list_all (\<lambda>c. (of_char c :: nat) \<le> 127) key"

definition getAsPropertyNameExpression :: "Host \<Rightarrow> string \<Rightarrow> bool \<Rightarrow> Expr" where
  "getAsPropertyNameExpression host key canBeIdentifier =
     (case parseIndex host key of
        Some index \<Rightarrow> NumericLiteral index
      | None \<Rightarrow>
          if canBeIdentifier \<and> isValidIdentifier host key \<and> keyIsAscii key then Identifier key
          else StringLiteral key)"

fun isIdentifier :: "Expr \<Rightarrow> bool" where
  "isIdentifier (Identifier n) = True"
| "isIdentifier e = False"

definition emitPropertyAssignment ::
  "Host \<Rightarrow> Value \<Rightarrow> string \<Rightarrow> Value \<Rightarrow> 'c Generator \<Rightarrow> 'c Generator" where
  "emitPropertyAssignment host object key val this =
     (let propName = getAsPropertyNameExpression host key True
      in this\<lparr>body := body this @
           [\<lparr>declared = None,
             args = [object, val],
             buildNode = (\<lambda>nodes ctx c.
               (ExpressionStatement
                  (AssignmentExpression ''=''
                     (MemberExpression (node_at nodes 0) propName (\<not> isIdentifier propName))
                     (node_at nodes 1)), c)),
             isPure = None\<rparr>]\<rparr>)"

text \<open>
  \<open>emitDefineProperty\<close>. \<open>desc.value\<close> holds a value object, which is truthy whatever the
  value; \<open>Object.assign({}, desc)\<close> copies the descriptor, so that the build function keeps the
  attributes as they are at the call.
\<close>

definition emitDefineProperty ::
  "Host \<Rightarrow> Value \<Rightarrow> string \<Rightarrow> Descriptor \<Rightarrow> 'c Generator \<Rightarrow> 'c Generator" where
  "emitDefineProperty host object key desc this =
     (if truthy (enumerable desc) \<and> truthy (configurable desc) \<and> truthy (writable desc)
         \<and> truthy_ref (desc_value desc)
      then (case desc_value desc of
              Some descValue \<Rightarrow> emitPropertyAssignment host object key descValue this
            | None \<Rightarrow> this)
      else
        (let desc' = desc
         in this\<lparr>body := body this @
              [\<lparr>declared = None,
                args = [object,
                        (case desc_value desc' of Some v \<Rightarrow> v | None \<Rightarrow> UndefinedValue),
                        (case desc_get desc' of Some v \<Rightarrow> v | None \<Rightarrow> UndefinedValue),
                        (case desc_set desc' of Some v \<Rightarrow> v | None \<Rightarrow> UndefinedValue)],
                buildNode = (\<lambda>nodes ctx c. emitDefinePropertyBody ctx object key desc' c),
                isPure = None\<rparr>]\<rparr>))"

text \<open>
  \<open>emitInvariant\<close>: the build function makes the guard \<open>if (condition) throw new Error(...)\<close>.
  \<open>nodes.pop()\<close> removes and returns the last node (\<open>undefined\<close> on an empty array).
\<close>

definition emitInvariant ::
  "Value list \<Rightarrow> (Expr list \<Rightarrow> Expr) \<Rightarrow> (Expr \<Rightarrow> Expr) option \<Rightarrow> 'c Generator \<Rightarrow> 'c Generator" where
  "emitInvariant args' violationConditionFn appendLastToInvariantFn this =
     this\<lparr>body := body this @
       [\<lparr>declared = None,
         args = args',
         buildNode = (\<lambda>nodes ctx c.
           (case
              (case appendLastToInvariantFn of
                 Some f \<Rightarrow>
                   (BinaryExpression ''+'' (StringLiteral ''Prepack model invariant violation: '')
                      (f (if nodes = [] then UndefinedNode else last nodes)),
                    butlast nodes)
               | None \<Rightarrow> (StringLiteral ''Prepack model invariant violation'', nodes))
            of (throwString, nodes') \<Rightarrow>
              (let condition = violationConditionFn nodes';
                   throwblock = BlockStatement
                     [ThrowStatement (NewExpression (Identifier ''Error'') [throwString])]
               in (IfStatement condition throwblock, c)))),
         isPure = None\<rparr>]\<rparr>"

text \<open>
  \<open>derive\<close>. Its argument \<open>buildNode_\<close> (named \<open>buildNode'\<close>) is a build function or an expression; its optional
  argument is a record of three optional fields (\<open>isPure\<close> is named \<open>isPure_opt\<close>).
\<close>

datatype BuildNodeArg = BuildFunction "Expr list \<Rightarrow> Expr" | BuildExpression Expr

fun isFunction :: "BuildNodeArg \<Rightarrow> bool" where
  "isFunction (BuildFunction f) = True"
| "isFunction (BuildExpression e) = False"

fun applyBuildNodeArg :: "BuildNodeArg \<Rightarrow> Expr list \<Rightarrow> Expr" where
  "applyBuildNodeArg (BuildFunction f) nodes = f nodes"
| "applyBuildNodeArg (BuildExpression e) nodes = e"

record OptionalArgs =
  kind :: "string option"
  isPure_opt :: "bool option"
  skipInvariant :: "bool option"

text \<open>
  \<open>type instanceof FunctionValue\<close>, where \<open>type\<close> is what \<open>types.getType()\<close> returns: a class
  (the code compares it with the classes \<open>UndefinedValue\<close>, \<open>StringValue\<close> and so on). A class
  is a constructor function; its prototype chain holds its superclasses' constructors and
  \<open>Function.prototype\<close>, never \<open>FunctionValue.prototype\<close>, so it is an instance of
  \<open>FunctionValue\<close> for no class.
\<close>

definition instanceof_FunctionValue :: "ValueClass \<Rightarrow> bool" where
  "instanceof_FunctionValue type = False"

text \<open>
  The chain of tests that chooses \<open>typeofString\<close>: \<open>None\<close> is \<open>undefined\<close>, and the two
  \<open>invariant(false)\<close> throw.
\<close>

definition typeofString_of :: "ValueClass \<Rightarrow> Thrown + string option" where
  "typeofString_of type =
     (if instanceof_FunctionValue type then Inr (Some ''function'')
      else if type = UndefinedValue_class then Inl InvariantViolation
      else if type = NullValue_class then Inl InvariantViolation
      else if type = StringValue_class then Inr (Some ''string'')
      else if type = BooleanValue_class then Inr (Some ''boolean'')
      else if type = NumberValue_class then Inr (Some ''number'')
      else if type = SymbolValue_class then Inr (Some ''symbol'')
      else if type = ObjectValue_class then Inr (Some ''object'')
      else Inr None)"

text \<open>The violation condition that \<open>derive\<close> hands to \<open>emitInvariant\<close>.\<close>

definition typeof_violation :: "string \<Rightarrow> Expr list \<Rightarrow> Expr" where
  "typeof_violation typeofString nodes =
     (let condition = BinaryExpression ''!=='' (UnaryExpression ''typeof'' (node_at nodes 0))
                        (StringLiteral typeofString)
      in if typeofString = ''object'' then
           LogicalExpression ''||''
             (LogicalExpression ''&&'' condition
                (BinaryExpression ''!=='' (UnaryExpression ''typeof'' (node_at nodes 0))
                   (StringLiteral ''function'')))
             (BinaryExpression ''==='' (node_at nodes 0) NullLiteral)
         else condition)"

definition derive ::
  "TypesDomain \<Rightarrow> Value ValuesDomain \<Rightarrow> Value list \<Rightarrow> BuildNodeArg \<Rightarrow> OptionalArgs option
     \<Rightarrow> 'c Generator \<Rightarrow> 'r Realm_scheme
     \<Rightarrow> (Thrown + Value) \<times> 'c Generator \<times> 'r Realm_scheme" where
  "derive types vals args' buildNode' optionalArgs this realm =
     (if \<not> (isFunction buildNode' \<or> length args' = 0) then (Inl InvariantViolation, this, realm)
      else
       (case generate (nameGenerator (preludeGenerator this)) (Some ''derived'') of
          (name, ng) \<Rightarrow>
           (case createAbstract types vals []
                   (case optionalArgs of Some oa \<Rightarrow> kind oa | None \<Rightarrow> None) realm of
              (res, realm1) \<Rightarrow>
               (let ident = Identifier name;
                    pg = (preludeGenerator this)
                           \<lparr>nameGenerator := ng,
                            derivedIds := (derivedIds (preludeGenerator this))(name \<mapsto> args')\<rparr>;
                    this1 = this\<lparr>preludeGenerator := pg,
                      body := body this @
                        [\<lparr>declared = Some res,
                          args = args',
                          buildNode = (\<lambda>nodes ctx c.
                            (VariableDeclaration ''var''
                               [(ident, applyBuildNodeArg buildNode' nodes)], c)),
                          isPure = (case optionalArgs of
                                      Some oa \<Rightarrow> isPure_opt oa | None \<Rightarrow> None)\<rparr>]\<rparr>;
                    type = getType types
                in if (case optionalArgs of Some oa \<Rightarrow> truthy (skipInvariant oa) | None \<Rightarrow> False)
                   then (Inr res, this1, realm1)
                   else
                     (case typeofString_of type of
                        Inl thrown \<Rightarrow> (Inl thrown, this1, realm1)
                      | Inr None \<Rightarrow> (Inr res, this1, realm1)
                      | Inr (Some typeofString) \<Rightarrow>
                          (Inr res,
                           emitInvariant [res, res] (typeof_violation typeofString)
                             (Some (\<lambda>node. node)) this1,
                           realm1))))))"

text \<open>
  \<open>serialize\<close>. \<open>entry.args.map(...)\<close> calls \<open>context.serializeValue\<close> on the arguments from
  left to right; \<open>||\<close> evaluates \<open>context.canOmit\<close> only for a pure entry that declares a value.
\<close>

fun serialize_args :: "'c SerializationContext \<Rightarrow> Value list \<Rightarrow> 'c \<Rightarrow> Expr list \<times> 'c" where
  "serialize_args ctx [] c = ([], c)"
| "serialize_args ctx (boundArg # rest) c =
     (case serializeValue ctx boundArg c of
        (node, c1) \<Rightarrow> (case serialize_args ctx rest c1 of (nodes, c2) \<Rightarrow> (node # nodes, c2)))"

definition serialize_entry :: "'c GeneratorEntry \<Rightarrow> 'c SerializationContext \<Rightarrow> 'c \<Rightarrow> 'c" where
  "serialize_entry entry ctx c =
     (case (if \<not> truthy (isPure entry) then (False, c)
            else (case declared entry of
                    None \<Rightarrow> (False, c)
                  | Some d \<Rightarrow> canOmit ctx d c))
      of (omit, c1) \<Rightarrow>
        if \<not> omit then
          (case serialize_args ctx (args entry) c1 of
             (nodes, c2) \<Rightarrow>
               (case buildNode entry nodes ctx c2 of
                  (statement, c3) \<Rightarrow>
                    (let c4 = emit ctx statement c3
                     in (case declared entry of
                           Some d \<Rightarrow> declare' ctx d c4
                         | None \<Rightarrow> c4))))
        else c1)"

fun serialize_body :: "'c GeneratorEntry list \<Rightarrow> 'c SerializationContext \<Rightarrow> 'c \<Rightarrow> 'c" where
  "serialize_body [] ctx c = c"
| "serialize_body (entry # rest) ctx c = serialize_body rest ctx (serialize_entry entry ctx c)"

definition serialize :: "'c Generator \<Rightarrow> 'c SerializationContext \<Rightarrow> 'c \<Rightarrow> 'c" where
  "serialize this ctx c = serialize_body (body this) ctx c"

text \<open>
  A context that records the calls of \<open>emit\<close> and \<open>declare\<close> in the order they are made:
  its state is the list of calls so far.
\<close>

datatype SerializerCall = Emitted Stmt | Declared Value

definition recording_context ::
  "(Value \<Rightarrow> Expr) \<Rightarrow> (Value \<Rightarrow> bool) \<Rightarrow> (Value \<Rightarrow> string \<Rightarrow> Descriptor \<Rightarrow> Stmt)
     \<Rightarrow> SerializerCall list SerializationContext" where
  "recording_context sv om dp =
     \<lparr>serializeValue = (\<lambda>v calls. (sv v, calls)),
      emitDefinePropertyBody = (\<lambda>object key desc calls. (dp object key desc, calls)),
      emit = (\<lambda>statement calls. calls @ [Emitted statement]),
      canOmit = (\<lambda>v calls. (om v, calls)),
      declare' = (\<lambda>v calls. calls @ [Declared v])\<rparr>"

text \<open>An entry whose build function is pure: it builds \<open>b nodes\<close> and leaves the state alone.\<close>

definition pure_entry ::
  "Value option \<times> Value list \<times> (Expr list \<Rightarrow> Stmt) \<times> bool option \<Rightarrow> 'c GeneratorEntry" where
  "pure_entry spec =
     (case spec of (d, a, b, p) \<Rightarrow>
        \<lparr>declared = d, args = a, buildNode = (\<lambda>nodes ctx c. (b nodes, c)), isPure = p\<rparr>)"

text \<open>The calls that serializing one such entry makes.\<close>

definition entry_calls ::
  "(Value \<Rightarrow> Expr) \<Rightarrow> (Value \<Rightarrow> bool)
     \<Rightarrow> Value option \<times> Value list \<times> (Expr list \<Rightarrow> Stmt) \<times> bool option \<Rightarrow> SerializerCall list" where
  "entry_calls sv om spec =
     (case spec of (d, a, b, p) \<Rightarrow>
        (case d of
           Some v \<Rightarrow> if p = Some True \<and> om v then [] else [Emitted (b (map sv a)), Declared v]
         | None \<Rightarrow> [Emitted (b (map sv a))]))"

lemma serialize_body_append:
  "serialize_body (xs @ ys) ctx c = serialize_body ys ctx (serialize_body xs ctx c)"
  by (induction xs arbitrary: c) simp_all

lemma recording_context_sel:
  "serializeValue (recording_context sv om dp) v calls = (sv v, calls)"
  "emitDefinePropertyBody (recording_context sv om dp) object key desc calls
     = (dp object key desc, calls)"
  "emit (recording_context sv om dp) statement calls = calls @ [Emitted statement]"
  "canOmit (recording_context sv om dp) v calls = (om v, calls)"
  "declare' (recording_context sv om dp) v calls = calls @ [Declared v]"
  by (simp_all add: recording_context_def)

lemma serialize_args_recording:
  "serialize_args (recording_context sv om dp) a calls = (map sv a, calls)"
  by (induction a) (simp_all add: recording_context_sel)

lemma serialize_entry_recording:
  "serialize_entry (pure_entry spec) (recording_context sv om dp) calls
     = calls @ entry_calls sv om spec"
proof -
  obtain d a b p where spec: "spec = (d, a, b, p)" by (cases spec)
  show ?thesis
    unfolding spec serialize_entry_def pure_entry_def entry_calls_def
    by (cases d; cases p)
      (simp_all add: serialize_args_recording truthy_def recording_context_sel)
qed

lemma serialize_body_recording:
  "serialize_body (map pure_entry specs) (recording_context sv om dp) calls
     = calls @ concat (map (entry_calls sv om) specs)"
  by (induction specs arbitrary: calls) (simp_all add: serialize_entry_recording)

text \<open>What \<open>serialize\<close> does for an entry that it does not omit, from the state \<open>c1\<close>.\<close>

definition emit_entry :: "'c GeneratorEntry \<Rightarrow> 'c SerializationContext \<Rightarrow> 'c \<Rightarrow> 'c" where
  "emit_entry entry ctx c1 =
     (case serialize_args ctx (args entry) c1 of
        (nodes, c2) \<Rightarrow>
          (case buildNode entry nodes ctx c2 of
             (statement, c3) \<Rightarrow>
               (case declared entry of
                  Some d \<Rightarrow> declare' ctx d (emit ctx statement c3)
                | None \<Rightarrow> emit ctx statement c3)))"

lemma serialize_entry_cases:
  "serialize_entry e ctx c =
     (if isPure e = Some True \<and> declared e \<noteq> None
      then (if fst (canOmit ctx (the (declared e)) c) then snd (canOmit ctx (the (declared e)) c)
            else emit_entry e ctx (snd (canOmit ctx (the (declared e)) c)))
      else emit_entry e ctx c)"
  by (cases "isPure e"; cases "declared e")
    (auto simp: serialize_entry_def emit_entry_def truthy_def Let_def case_prod_beta)

text \<open>
  Claim C5. \<open>serialize\<close> goes through the body in order: serializing a body \<open>xs @ ys\<close> is
  serializing \<open>xs\<close>, then \<open>ys\<close>. An entry is skipped (nothing is emitted or declared for it)
  when it is marked pure, declares a value and \<open>canOmit\<close> reports that value omittable; in every
  other case its arguments are serialized, its statement is built and emitted, and then, when
  the entry declares a value, \<open>declare\<close> is called on that value. With a context that records
  the calls, the calls made for a body of entries are, in the order of the body, those of each
  entry: none for an omitted entry, else the emission followed by the declaration if any.
\<close>

theorem serialize_in_order:
  "serialize (this\<lparr>body := xs @ ys\<rparr>) ctx c
      = serialize (this\<lparr>body := ys\<rparr>) ctx (serialize (this\<lparr>body := xs\<rparr>) ctx c)
   \<and> (isPure e = Some True \<and> declared e = Some d \<and> canOmit ctx d c = (True, c1)
        \<longrightarrow> serialize (this\<lparr>body := [e]\<rparr>) ctx c = c1)
   \<and> (isPure e = Some True \<and> declared e = Some d \<and> canOmit ctx d c = (False, c1)
        \<longrightarrow> serialize (this\<lparr>body := [e]\<rparr>) ctx c = emit_entry e ctx c1)
   \<and> (isPure e \<noteq> Some True \<or> declared e = None
        \<longrightarrow> serialize (this\<lparr>body := [e]\<rparr>) ctx c = emit_entry e ctx c)
   \<and> serialize (that\<lparr>body := map pure_entry specs\<rparr>) (recording_context sv om dp) calls
      = calls @ concat (map (entry_calls sv om) specs)"
  by (auto simp: serialize_def serialize_body_append serialize_entry_cases
      serialize_body_recording)

definition example_entries ::
  "(Value option \<times> Value list \<times> (Expr list \<Rightarrow> Stmt) \<times> bool option) list" where
  "example_entries =
     [(Some (StringValue ''a''), [NullValue], BlockStatement \<circ> map ExpressionStatement, Some True),
      (Some (StringValue ''b''), [], BlockStatement \<circ> map ExpressionStatement, Some True),
      (None, [UndefinedValue], BlockStatement \<circ> map ExpressionStatement, Some True),
      (Some (StringValue ''c''), [], BlockStatement \<circ> map ExpressionStatement, None)]"

definition example_context :: "SerializerCall list SerializationContext" where
  "example_context = recording_context (\<lambda>v. NullLiteral) (\<lambda>v. v = StringValue ''b'')
     (\<lambda>object key desc. BlockStatement [])"

theorem serialize_in_order_witness:
  "serialize \<lparr>body = [pure_entry (example_entries ! 1)], preludeGenerator = example_prelude\<rparr>
     example_context [] = []
   \<and> serialize \<lparr>body = map pure_entry example_entries, preludeGenerator = example_prelude\<rparr>
     example_context []
   = [Emitted (BlockStatement [ExpressionStatement NullLiteral]), Declared (StringValue ''a''),
      Emitted (BlockStatement [ExpressionStatement NullLiteral]),
      Emitted (BlockStatement []), Declared (StringValue ''c'')]"
  using serialize_in_order [where this = "\<lparr>body = [], preludeGenerator = example_prelude\<rparr>"
      and that = "\<lparr>body = [], preludeGenerator = example_prelude\<rparr>"
      and xs = "[]" and ys = "[]" and ctx = example_context and c = "[]" and ?c1.0 = "[]"
      and e = "pure_entry (example_entries ! 1)" and d = "StringValue ''b''"
      and specs = example_entries and sv = "\<lambda>v. NullLiteral"
      and om = "\<lambda>v. v = StringValue ''b''" and dp = "\<lambda>object key desc. BlockStatement []"
      and calls = "[]"]
  by (simp add: example_entries_def entry_calls_def example_context_def pure_entry_def
      recording_context_sel)

text \<open>
  Claim C10. \<open>emitDefineProperty(object, key, desc)\<close> pushes exactly one entry. If
  \<open>enumerable\<close>, \<open>configurable\<close> and \<open>writable\<close> of \<open>desc\<close> are all true and its value is
  present, the generator after the call is the one that \<open>emitPropertyAssignment\<close> gives for
  the value: the entry has the arguments \<open>[object, value]\<close> and builds the assignment to the
  property. Otherwise the entry has the arguments \<open>[object, value, get, set]\<close>, each of the
  last three replaced by \<open>undefined\<close> when absent, and its build function is the context's
  \<open>emitDefinePropertyBody\<close> on the object, the key and the descriptor as it was at the call.
\<close>

theorem emitDefineProperty_entry:
  "(enumerable desc = Some True \<and> configurable desc = Some True \<and> writable desc = Some True
      \<and> desc_value desc = Some v
     \<longrightarrow> emitDefineProperty host object key desc this = emitPropertyAssignment host object key v this
        \<and> (\<exists>e. body (emitDefineProperty host object key desc this) = body this @ [e]
              \<and> args e = [object, v] \<and> declared e = None \<and> isPure e = None
              \<and> (\<forall>o' v' ctx c. \<exists>computed. buildNode e [o', v'] ctx c =
                    (ExpressionStatement (AssignmentExpression ''=''
                       (MemberExpression o' (getAsPropertyNameExpression host key True) computed)
                       v'), c))))
   \<and> (\<not> (enumerable desc = Some True \<and> configurable desc = Some True \<and> writable desc = Some True
          \<and> desc_value desc \<noteq> None)
     \<longrightarrow> (\<exists>e. body (emitDefineProperty host object key desc this) = body this @ [e]
              \<and> args e = [object,
                   (case desc_value desc of Some x \<Rightarrow> x | None \<Rightarrow> UndefinedValue),
                   (case desc_get desc of Some x \<Rightarrow> x | None \<Rightarrow> UndefinedValue),
                   (case desc_set desc of Some x \<Rightarrow> x | None \<Rightarrow> UndefinedValue)]
              \<and> declared e = None \<and> isPure e = None
              \<and> (\<forall>nodes ctx c. buildNode e nodes ctx c
                    = emitDefinePropertyBody ctx object key desc c)))
   \<and> preludeGenerator (emitDefineProperty host object key desc this) = preludeGenerator this"
proof -
  have simple: "emitDefineProperty host object key desc this
      = emitPropertyAssignment host object key v this"
    if "enumerable desc = Some True" "configurable desc = Some True" "writable desc = Some True"
      "desc_value desc = Some v"
    using that by (simp add: emitDefineProperty_def truthy_def truthy_ref_def)
  have assignment: "\<exists>e. body (emitPropertyAssignment host object key v this) = body this @ [e]
      \<and> args e = [object, v] \<and> declared e = None \<and> isPure e = None
      \<and> (\<forall>o' v' ctx c. \<exists>computed. buildNode e [o', v'] ctx c =
            (ExpressionStatement (AssignmentExpression ''=''
               (MemberExpression o' (getAsPropertyNameExpression host key True) computed) v'), c))"
    by (simp add: emitPropertyAssignment_def Let_def node_at_def)
  have other: "\<exists>e. body (emitDefineProperty host object key desc this) = body this @ [e]
      \<and> args e = [object,
           (case desc_value desc of Some x \<Rightarrow> x | None \<Rightarrow> UndefinedValue),
           (case desc_get desc of Some x \<Rightarrow> x | None \<Rightarrow> UndefinedValue),
           (case desc_set desc of Some x \<Rightarrow> x | None \<Rightarrow> UndefinedValue)]
      \<and> declared e = None \<and> isPure e = None
      \<and> (\<forall>nodes ctx c. buildNode e nodes ctx c = emitDefinePropertyBody ctx object key desc c)"
    if "\<not> (enumerable desc = Some True \<and> configurable desc = Some True
          \<and> writable desc = Some True \<and> desc_value desc \<noteq> None)"
  proof -
    have no: "(truthy (enumerable desc) \<and> truthy (configurable desc) \<and> truthy (writable desc)
        \<and> truthy_ref (desc_value desc)) = False"
      using that by (auto simp: truthy_def truthy_ref_def split: option.splits)
    show ?thesis unfolding emitDefineProperty_def no by (simp add: Let_def)
  qed
  have prelude: "preludeGenerator (emitDefineProperty host object key desc this)
      = preludeGenerator this"
    by (simp add: emitDefineProperty_def emitPropertyAssignment_def Let_def
        split: option.splits)
  show ?thesis using simple assignment other prelude by metis
qed

definition example_host :: Host where
  "example_host = \<lparr>parseIndex = (\<lambda>key. None), isValidIdentifier = (\<lambda>key. True)\<rparr>"

definition example_generator :: "SerializerCall list Generator" where
  "example_generator = \<lparr>body = [], preludeGenerator = example_prelude\<rparr>"

definition example_data_descriptor :: Descriptor where
  "example_data_descriptor =
     \<lparr>writable = Some True, enumerable = Some True, configurable = Some True,
      desc_value = Some (BooleanValue False), desc_get = None, desc_set = None\<rparr>"

theorem emitDefineProperty_entry_witness:
  "emitDefineProperty example_host (ObjectValue 0) ''x'' example_data_descriptor example_generator
     = emitPropertyAssignment example_host (ObjectValue 0) ''x'' (BooleanValue False)
         example_generator
   \<and> map args (body (emitDefineProperty example_host (ObjectValue 0) ''x''
         example_data_descriptor example_generator)) = [[ObjectValue 0, BooleanValue False]]
   \<and> map args (body (emitDefineProperty example_host (ObjectValue 0) ''x''
         (example_data_descriptor\<lparr>writable := Some False\<rparr>) example_generator))
       = [[ObjectValue 0, BooleanValue False, UndefinedValue, UndefinedValue]]"
  using emitDefineProperty_entry [of example_data_descriptor "BooleanValue False"
      example_host "ObjectValue 0" "''x''" example_generator]
    emitDefineProperty_entry [of "example_data_descriptor\<lparr>writable := Some False\<rparr>"
      "BooleanValue False" example_host "ObjectValue 0" "''x''" example_generator]
  by (auto simp: example_data_descriptor_def example_generator_def)

text \<open>The guard that the build function of an invariant entry makes.\<close>

definition is_throw_guard :: "Stmt \<Rightarrow> bool" where
  "is_throw_guard statement =
     (case statement of
        IfStatement condition (BlockStatement [ThrowStatement (NewExpression (Identifier n) m)])
          \<Rightarrow> n = ''Error''
      | _ \<Rightarrow> False)"

lemma emitInvariant_entry:
  "\<exists>g. body (emitInvariant a f h this) = body this @ [g] \<and> args g = a \<and> declared g = None
     \<and> (\<forall>nodes ctx c. is_throw_guard (fst (buildNode g nodes ctx c)))"
  by (cases h) (simp_all add: emitInvariant_def is_throw_guard_def Let_def)

text \<open>
  Claim C6, on the code. A call of \<open>derive\<close> that passes its first invariant appends the
  variable declaration entry for the fresh abstract value. With \<open>skipInvariant\<close> set that is
  the only entry appended. Without it, when the type of the types domain is \<open>StringValue\<close>,
  \<open>BooleanValue\<close>, \<open>NumberValue\<close>, \<open>SymbolValue\<close> or \<open>ObjectValue\<close>, a second entry follows:
  the typeof guard on the fresh value. When the type is \<open>FunctionValue\<close> the code appends the
  declaration entry only: no typeof guard for \<open>function\<close> is emitted, against the claim.
\<close>

theorem derive_entries:
  assumes "isFunction b \<or> a = []"
    and "derive types vals a b oa this realm = (r, this', realm')"
  shows "((\<exists>o'. oa = Some o' \<and> skipInvariant o' = Some True)
          \<longrightarrow> (\<exists>e res. r = Inr res \<and> body this' = body this @ [e]
                 \<and> declared e = Some res \<and> args e = a))
    \<and> (\<not> (\<exists>o'. oa = Some o' \<and> skipInvariant o' = Some True)
          \<and> getType types \<in> {StringValue_class, BooleanValue_class, NumberValue_class,
                SymbolValue_class, ObjectValue_class}
          \<longrightarrow> (\<exists>e g res. r = Inr res \<and> body this' = body this @ [e, g]
                 \<and> declared e = Some res \<and> args e = a
                 \<and> declared g = None \<and> args g = [res, res]
                 \<and> (\<forall>nodes ctx c. is_throw_guard (fst (buildNode g nodes ctx c)))))
    \<and> (\<not> (\<exists>o'. oa = Some o' \<and> skipInvariant o' = Some True)
          \<and> getType types = FunctionValue_class
          \<longrightarrow> (\<exists>e res. r = Inr res \<and> body this' = body this @ [e]
                 \<and> declared e = Some res \<and> args e = a))"
proof -
  obtain name ng where g: "generate (nameGenerator (preludeGenerator this)) (Some ''derived'')
      = (name, ng)"
    by (cases "generate (nameGenerator (preludeGenerator this)) (Some ''derived'')")
  let ?kind = "case oa of Some x \<Rightarrow> kind x | None \<Rightarrow> None"
  obtain res realm1 where ca: "createAbstract types vals [] ?kind realm = (res, realm1)"
    by (cases "createAbstract types vals [] ?kind realm")
  let ?skip = "case oa of Some x \<Rightarrow> truthy (skipInvariant x) | None \<Rightarrow> False"
  have skip_iff: "?skip \<longleftrightarrow> (\<exists>o'. oa = Some o' \<and> skipInvariant o' = Some True)"
    by (cases oa) (auto simp: truthy_def split: option.splits)
  define decl :: "'a GeneratorEntry" where
    "decl = \<lparr>declared = Some res, args = a,
       buildNode = (\<lambda>nodes ctx c.
         (VariableDeclaration ''var'' [(Identifier name, applyBuildNodeArg b nodes)], c)),
       isPure = (case oa of Some x \<Rightarrow> isPure_opt x | None \<Rightarrow> None)\<rparr>"
  define this1 where
    "this1 = this\<lparr>preludeGenerator := (preludeGenerator this)
         \<lparr>nameGenerator := ng,
          derivedIds := (derivedIds (preludeGenerator this))(name \<mapsto> a)\<rparr>,
       body := body this @ [decl]\<rparr>"
  have decl: "declared decl = Some res" "args decl = a" by (simp_all add: decl_def)
  have body1: "body this1 = body this @ [decl]" by (simp add: this1_def)
  have eq: "derive types vals a b oa this realm =
      (if ?skip then (Inr res, this1, realm1)
       else (case typeofString_of (getType types) of
               Inl thrown \<Rightarrow> (Inl thrown, this1, realm1)
             | Inr None \<Rightarrow> (Inr res, this1, realm1)
             | Inr (Some s) \<Rightarrow>
                 (Inr res,
                  emitInvariant [res, res] (typeof_violation s) (Some (\<lambda>node. node)) this1,
                  realm1)))"
    using assms(1)
    by (simp add: derive_def g ca Let_def this1_def decl_def split: sum.split option.split)
  show ?thesis
  proof (cases ?skip)
    case True
    then have "r = Inr res" "this' = this1" using assms(2) eq by simp_all
    then show ?thesis using True skip_iff body1 decl by auto
  next
    case False
    have str: "\<exists>e g. r = Inr res \<and> body this' = body this @ [e, g]
          \<and> declared e = Some res \<and> args e = a \<and> declared g = None \<and> args g = [res, res]
          \<and> (\<forall>nodes ctx c. is_throw_guard (fst (buildNode g nodes ctx c)))"
      if s: "typeofString_of (getType types) = Inr (Some s)" for s
    proof -
      have r: "r = Inr res"
        and t: "this' = emitInvariant [res, res] (typeof_violation s) (Some (\<lambda>node. node)) this1"
        using assms(2) eq False s by simp_all
      obtain g where "body this' = body this1 @ [g]" "args g = [res, res]" "declared g = None"
        "\<forall>nodes ctx c. is_throw_guard (fst (buildNode g nodes ctx c))"
        using emitInvariant_entry [of "[res, res]" "typeof_violation s" "Some (\<lambda>node. node)" this1]
        unfolding t by blast
      then show ?thesis using r body1 decl by auto
    qed
    have none: "\<exists>e. r = Inr res \<and> body this' = body this @ [e] \<and> declared e = Some res
          \<and> args e = a"
      if "typeofString_of (getType types) = Inr None"
    proof -
      have "r = Inr res" "this' = this1" using assms(2) eq False that by simp_all
      then show ?thesis using body1 decl by auto
    qed
    have "getType types \<in> {StringValue_class, BooleanValue_class, NumberValue_class,
          SymbolValue_class, ObjectValue_class}
        \<Longrightarrow> \<exists>s. typeofString_of (getType types) = Inr (Some s)"
      by (auto simp: typeofString_of_def instanceof_FunctionValue_def)
    moreover have "getType types = FunctionValue_class
        \<Longrightarrow> typeofString_of (getType types) = Inr None"
      by (simp add: typeofString_of_def instanceof_FunctionValue_def)
    ultimately show ?thesis using False skip_iff str none by blast
  qed
qed

definition example_realm :: Realm where
  "example_realm = \<lparr>nextAbstractId = 0, handledErrors = [], modifiedBindings = [],
     heap = (\<lambda>n. \<lparr>properties = [], partial = False, simple = False\<rparr>),
     lexicalEnvironment = LexicalEnvironment (OtherEnvironmentRecord 0) None\<rparr>"

lemma example_derive_function:
  "map args (body (fst (snd (derive (TypesDomain FunctionValue_class) TopVal [NullValue]
       (BuildFunction (\<lambda>nodes. NullLiteral)) None example_generator example_realm))))
     = [[NullValue]]
   \<and> map args (body (fst (snd (derive (TypesDomain StringValue_class) TopVal [NullValue]
       (BuildFunction (\<lambda>nodes. NullLiteral)) None example_generator example_realm))))
     = [[NullValue],
        [AbstractValue 0 (TypesDomain StringValue_class) TopVal None [],
         AbstractValue 0 (TypesDomain StringValue_class) TopVal None []]]"
  by (simp add: derive_def example_generator_def example_realm_def example_prelude_def
      new_PreludeGenerator_def generate.simps make_id_def base62_encode_def Let_def
      createAbstract_def typeofString_of_def instanceof_FunctionValue_def emitInvariant_def)

theorem derive_entries_witness:
  "length (body (fst (snd (derive (TypesDomain FunctionValue_class) TopVal [NullValue]
       (BuildFunction (\<lambda>nodes. NullLiteral)) None example_generator example_realm))))
     = length (body example_generator) + 1
   \<and> length (body (fst (snd (derive (TypesDomain StringValue_class) TopVal [NullValue]
       (BuildFunction (\<lambda>nodes. NullLiteral)) None example_generator example_realm))))
     = length (body example_generator) + 2"
  using derive_entries [of "BuildFunction (\<lambda>nodes. NullLiteral)" "[NullValue]"
      "TypesDomain FunctionValue_class" TopVal None example_generator example_realm
      "fst (derive (TypesDomain FunctionValue_class) TopVal [NullValue]
         (BuildFunction (\<lambda>nodes. NullLiteral)) None example_generator example_realm)"
      "fst (snd (derive (TypesDomain FunctionValue_class) TopVal [NullValue]
         (BuildFunction (\<lambda>nodes. NullLiteral)) None example_generator example_realm))"
      "snd (snd (derive (TypesDomain FunctionValue_class) TopVal [NullValue]
         (BuildFunction (\<lambda>nodes. NullLiteral)) None example_generator example_realm))"]
    derive_entries [of "BuildFunction (\<lambda>nodes. NullLiteral)" "[NullValue]"
      "TypesDomain StringValue_class" TopVal None example_generator example_realm
      "fst (derive (TypesDomain StringValue_class) TopVal [NullValue]
         (BuildFunction (\<lambda>nodes. NullLiteral)) None example_generator example_realm)"
      "fst (snd (derive (TypesDomain StringValue_class) TopVal [NullValue]
         (BuildFunction (\<lambda>nodes. NullLiteral)) None example_generator example_realm))"
      "snd (snd (derive (TypesDomain StringValue_class) TopVal [NullValue]
         (BuildFunction (\<lambda>nodes. NullLiteral)) None example_generator example_realm))"]
  by (auto simp: example_generator_def)

section \<open>Parsing (utils/parse.js)\<close>

text \<open>
  The parser \<open>babylon\<close> is an external collaborator (section 6 of the specification): it is a
  parameter of the model, returning the tree or what it throws, a \<open>SyntaxError\<close> with its
  message and location or any other exception. A node of the tree has an optional location
  and its child nodes. \<open>traverseFast\<close> (utils/traverse-fast.js, not among the source files)
  visits every node, parents first; the callback of \<open>parse\<close> never stops it.
\<close>

record BabelNodeSourceLocation = SourceLocation +
  source :: "string option"

datatype BabelNode = BabelNode "BabelNodeSourceLocation option" "BabelNode list"


text \<open>
  The traversal with the callback of \<open>parse\<close>: \<open>invariant(node.loc)\<close>, then
  \<open>node.loc.source = filename\<close>.
\<close>

fun set_source :: "string \<Rightarrow> BabelNode \<Rightarrow> Thrown + BabelNode"
  and set_sources :: "string \<Rightarrow> BabelNode list \<Rightarrow> Thrown + BabelNode list" where
  "set_source filename' (BabelNode l subNodes) =
     (case l of
        None \<Rightarrow> Inl InvariantViolation
      | Some location' \<Rightarrow>
          (case set_sources filename' subNodes of
             Inl thrown \<Rightarrow> Inl thrown
           | Inr subNodes' \<Rightarrow>
               Inr (BabelNode (Some (location'\<lparr>source := Some filename'\<rparr>)) subNodes')))"
| "set_sources filename' [] = Inr []"
| "set_sources filename' (node # rest) =
     (case set_source filename' node of
        Inl thrown \<Rightarrow> Inl thrown
      | Inr node' \<Rightarrow>
          (case set_sources filename' rest of
             Inl thrown \<Rightarrow> Inl thrown
           | Inr rest' \<Rightarrow> Inr (node' # rest')))"










section \<open>Declarative environment records (environment.js)\<close>

text \<open>
  The methods of \<open>DeclarativeEnvironmentRecord\<close> take the record \<open>envRec\<close> (\<open>this\<close>) and the
  realm, and return what they return or throw together with the record and the realm as they
  leave them. A binding object stored in \<open>bindings\<close> is updated in place by the source; here
  the updated binding is stored back under its name.
\<close>

definition HasBinding :: "DeclarativeEnvironmentRecord \<Rightarrow> string \<Rightarrow> bool" where
  "HasBinding envRec N = (if truthy_ref (bindings envRec N) then True else False)"

definition CreateMutableBinding ::
  "string \<Rightarrow> bool \<Rightarrow> DeclarativeEnvironmentRecord \<Rightarrow> 'r Realm_scheme
     \<Rightarrow> (Thrown + Value) \<times> DeclarativeEnvironmentRecord \<times> 'r Realm_scheme" where
  "CreateMutableBinding N D envRec realm =
     (if truthy_ref (bindings envRec N) then (Inl InvariantViolation, envRec, realm)
      else
        (case recordModifiedBinding
                \<lparr>value' = None, initialized = Some False, mutable = Some True,
                 deletable = Some D, strict = None\<rparr> envRec realm of
           (binding, realm') \<Rightarrow>
             (Inr UndefinedValue, envRec\<lparr>bindings := (bindings envRec)(N \<mapsto> binding)\<rparr>, realm')))"

definition CreateImmutableBinding ::
  "string \<Rightarrow> bool \<Rightarrow> DeclarativeEnvironmentRecord \<Rightarrow> 'r Realm_scheme
     \<Rightarrow> (Thrown + Value) \<times> DeclarativeEnvironmentRecord \<times> 'r Realm_scheme" where
  "CreateImmutableBinding N S envRec realm =
     (if truthy_ref (bindings envRec N) then (Inl InvariantViolation, envRec, realm)
      else
        (case recordModifiedBinding
                \<lparr>value' = None, initialized = Some False, mutable = None,
                 deletable = Some False, strict = Some S\<rparr> envRec realm of
           (binding, realm') \<Rightarrow>
             (Inr UndefinedValue, envRec\<lparr>bindings := (bindings envRec)(N \<mapsto> binding)\<rparr>, realm')))"

definition InitializeBinding ::
  "string \<Rightarrow> Value \<Rightarrow> DeclarativeEnvironmentRecord \<Rightarrow> 'r Realm_scheme
     \<Rightarrow> (Thrown + Value) \<times> DeclarativeEnvironmentRecord \<times> 'r Realm_scheme" where
  "InitializeBinding N V envRec realm =
     (case bindings envRec N of
        None \<Rightarrow> (Inl InvariantViolation, envRec, realm)
      | Some binding \<Rightarrow>
          if truthy (initialized binding) then (Inl InvariantViolation, envRec, realm)
          else
            (case recordModifiedBinding binding envRec realm of
               (recorded, realm') \<Rightarrow>
                 (Inr EmptyValue,
                  envRec\<lparr>bindings := (bindings envRec)
                    (N \<mapsto> recorded\<lparr>value' := Some V, initialized := Some True\<rparr>)\<rparr>,
                  realm')))"

definition SetMutableBinding ::
  "string \<Rightarrow> Value \<Rightarrow> bool \<Rightarrow> DeclarativeEnvironmentRecord \<Rightarrow> 'r Realm_scheme
     \<Rightarrow> (Thrown + Value) \<times> DeclarativeEnvironmentRecord \<times> 'r Realm_scheme" where
  "SetMutableBinding N V S envRec realm =
     (case bindings envRec N of
        None \<Rightarrow>
          if S then
            (Inl (createErrorThrowCompletion ReferenceError (Some (N @ '' not found''))),
             envRec, realm)
          else
            (case CreateMutableBinding N True envRec realm of
               (Inl thrown, envRec1, realm1) \<Rightarrow> (Inl thrown, envRec1, realm1)
             | (Inr created, envRec1, realm1) \<Rightarrow>
                 (case InitializeBinding N V envRec1 realm1 of
                    (Inl thrown, envRec2, realm2) \<Rightarrow> (Inl thrown, envRec2, realm2)
                  | (Inr initialised, envRec2, realm2) \<Rightarrow> (Inr EmptyValue, envRec2, realm2)))
      | Some binding \<Rightarrow>
          (let S' = (if truthy (strict binding) then True else S)
           in if \<not> truthy (initialized binding) then
                (Inl (createErrorThrowCompletion ReferenceError
                        (Some (N @ '' has not yet been initialized''))),
                 envRec, realm)
              else if truthy (mutable binding) then
                (case recordModifiedBinding binding envRec realm of
                   (recorded, realm') \<Rightarrow>
                     (Inr EmptyValue,
                      envRec\<lparr>bindings := (bindings envRec)(N \<mapsto> recorded\<lparr>value' := Some V\<rparr>)\<rparr>,
                      realm'))
              else if S' then
                (Inl (createErrorThrowCompletion TypeError
                        (Some ''attempt to change immutable binding'')),
                 envRec, realm)
              else (Inr EmptyValue, envRec, realm)))"

text \<open>
  Claim C1. On a declarative environment record with no binding for \<open>N\<close>,
  \<open>SetMutableBinding(N, V, true)\<close> throws a throw completion carrying a \<open>ReferenceError\<close> and
  leaves the record (and the realm) as they were; \<open>SetMutableBinding(N, V, false)\<close> returns the
  empty completion value and leaves the record with one binding more, the binding for \<open>N\<close>:
  mutable, deletable, initialized, with the value \<open>V\<close>.
\<close>

theorem SetMutableBinding_unbound:
  assumes "bindings envRec N = None"
  shows "(\<exists>error l. SetMutableBinding N V True envRec realm
              = (Inl (ThrowCompletion error l), envRec, realm)
            \<and> errorType error = ReferenceError)
    \<and> (\<exists>realm'. SetMutableBinding N V False envRec realm
              = (Inr EmptyValue,
                 envRec\<lparr>bindings := (bindings envRec)
                   (N \<mapsto> \<lparr>value' = Some V, initialized = Some True, mutable = Some True,
                          deletable = Some True, strict = None\<rparr>)\<rparr>,
                 realm'))"
  using assms
  by (simp add: SetMutableBinding_def CreateMutableBinding_def InitializeBinding_def
      recordModifiedBinding_def createErrorThrowCompletion_def truthy_ref_def truthy_def)

definition example_envRec :: DeclarativeEnvironmentRecord where
  "example_envRec =
     \<lparr>bindings = [''y'' \<mapsto> \<lparr>value' = Some NullValue, initialized = Some True,
                       mutable = Some True, deletable = Some False, strict = None\<rparr>],
      isReadOnly = False\<rparr>"

theorem SetMutableBinding_unbound_witness:
  "bindings example_envRec ''x'' = None
   \<and> fst (SetMutableBinding ''x'' (BooleanValue True) True example_envRec example_realm)
       = Inl (createErrorThrowCompletion ReferenceError (Some ''x not found''))
   \<and> fst (snd (SetMutableBinding ''x'' (BooleanValue True) True example_envRec example_realm))
       = example_envRec
   \<and> fst (SetMutableBinding ''x'' (BooleanValue True) False example_envRec example_realm)
       = Inr EmptyValue
   \<and> bindings (fst (snd (SetMutableBinding ''x'' (BooleanValue True) False example_envRec
         example_realm))) ''x''
       = Some \<lparr>value' = Some (BooleanValue True), initialized = Some True, mutable = Some True,
               deletable = Some True, strict = None\<rparr>"
proof -
  have unbound: "bindings example_envRec ''x'' = None"
    by (simp add: example_envRec_def)
  have thrown: "fst (SetMutableBinding ''x'' (BooleanValue True) True example_envRec example_realm)
       = Inl (createErrorThrowCompletion ReferenceError (Some ''x not found''))"
    using unbound by (simp add: SetMutableBinding_def)
  show ?thesis
    using SetMutableBinding_unbound [OF unbound, of "BooleanValue True" example_realm]
      unbound thrown
    by auto
qed

section \<open>The for-in evaluator (evaluators/ForInStatement.js)\<close>

text \<open>The realm with its field \<open>generator\<close> (which may be \<open>undefined\<close>).\<close>

record 'c GeneratorRealm = Realm +
  generator :: "'c Generator option"

text \<open>
  Modelled from the spec: the methods of the value classes that the evaluator calls
  (values/index.js). \<open>isPartialObject\<close> and \<open>isSimpleObject\<close> read the bit of an object in the
  heap; an abstract object has the bit when its values domain is a non-empty set of objects
  that all have it (section 3: it carries the value-set of its candidate objects); any other
  value has neither. \<open>makeSimple\<close>, \<open>makePartial\<close> and \<open>makeNotPartial\<close> set and clear the bits.
\<close>

definition isObjectValue :: "Value \<Rightarrow> bool" where
  "isObjectValue v = (case v of ObjectValue n \<Rightarrow> True | _ \<Rightarrow> False)"

definition isAbstractValue :: "Value \<Rightarrow> bool" where
  "isAbstractValue v = (case v of AbstractValue i t vs k a \<Rightarrow> True | _ \<Rightarrow> False)"

definition object_has :: "(ObjectRecord \<Rightarrow> bool) \<Rightarrow> (nat \<Rightarrow> ObjectRecord) \<Rightarrow> Value \<Rightarrow> bool" where
  "object_has flag h v = (case v of ObjectValue n \<Rightarrow> flag (h n) | _ \<Rightarrow> False)"

definition value_has :: "(ObjectRecord \<Rightarrow> bool) \<Rightarrow> (nat \<Rightarrow> ObjectRecord) \<Rightarrow> Value \<Rightarrow> bool" where
  "value_has flag h v =
     (case v of
        ObjectValue n \<Rightarrow> flag (h n)
      | AbstractValue i t vs k a \<Rightarrow>
          getType t = ObjectValue_class
          \<and> (case vs of TopVal \<Rightarrow> False
              | Elements es \<Rightarrow> es \<noteq> [] \<and> list_all (object_has flag h) es)
      | _ \<Rightarrow> False)"

definition isPartialObject :: "(nat \<Rightarrow> ObjectRecord) \<Rightarrow> Value \<Rightarrow> bool" where
  "isPartialObject h v = value_has partial h v"

definition isSimpleObject :: "(nat \<Rightarrow> ObjectRecord) \<Rightarrow> Value \<Rightarrow> bool" where
  "isSimpleObject h v = value_has simple h v"

definition makeSimple :: "nat \<Rightarrow> (nat \<Rightarrow> ObjectRecord) \<Rightarrow> (nat \<Rightarrow> ObjectRecord)" where
  "makeSimple n h = h(n := (h n)\<lparr>simple := True\<rparr>)"

definition makePartial :: "nat \<Rightarrow> (nat \<Rightarrow> ObjectRecord) \<Rightarrow> (nat \<Rightarrow> ObjectRecord)" where
  "makePartial n h = h(n := (h n)\<lparr>partial := True\<rparr>)"

definition makeNotPartial :: "nat \<Rightarrow> (nat \<Rightarrow> ObjectRecord) \<Rightarrow> (nat \<Rightarrow> ObjectRecord)" where
  "makeNotPartial n h = h(n := (h n)\<lparr>partial := False\<rparr>)"

text \<open>
  A property binding is identified by its object and by whether it is the binding of a named
  property or the object's \<open>unknownProperty\<close> binding; \<open>key.object.unknownProperty === key\<close>
  holds for the latter.
\<close>

datatype PropertySlot = NamedProperty string | UnknownProperty

datatype PropertyBinding = PropertyBinding Value PropertySlot

text \<open>
  The array that \<open>realm.evaluateNodeForEffects\<close> returns: the completion or value, the
  generator, the modified bindings, the modified properties (a map from property bindings to
  descriptors, which may be \<open>undefined\<close>) and the created objects.
\<close>

type_synonym 'c Effects =
  "(Thrown + Value) \<times> 'c Generator \<times> (Binding \<times> Value option) list
     \<times> (PropertyBinding \<times> Descriptor option) list \<times> nat list"

text \<open>
  The functions of the repository that the evaluator calls and that are not among the source
  files are parameters: \<open>ForInOfHeadEvaluation\<close> (given the names it receives),
  \<open>ForInOfBodyEvaluation\<close> (given the kind of the left-hand side and the object),
  \<open>evaluateNodeForEffects\<close> (given the block environment), \<open>EnumerableOwnProperties\<close> with
  \<open>"key+value"\<close> (the pairs of an object) and the method \<open>$Set\<close> of an object (named
  \<open>Set_property\<close>). The arguments that the evaluator only hands on (the nodes, \<open>strictCode\<close>,
  \<open>env\<close>, \<open>labelSet\<close>) are part of the parameters. Modelled from the spec: evaluation for
  effects commits nothing to the realm (section 4.1), and reading and writing the properties of
  a simple object changes nothing but properties (section 3).
\<close>

record 'c Collaborators =
  ForInOfHeadEvaluation ::
    "string list \<Rightarrow> 'c GeneratorRealm \<Rightarrow> (Thrown + Value) \<times> 'c GeneratorRealm"
  ForInOfBodyEvaluation ::
    "string \<Rightarrow> Value \<Rightarrow> 'c GeneratorRealm \<Rightarrow> (Thrown + Value) \<times> 'c GeneratorRealm"
  evaluateNodeForEffects :: "LexicalEnvironment \<Rightarrow> 'c GeneratorRealm \<Rightarrow> Thrown + 'c Effects"
  EnumerableOwnProperties :: "(nat \<Rightarrow> ObjectRecord) \<Rightarrow> nat \<Rightarrow> (string \<times> Value) list"
  Set_property :: "nat \<Rightarrow> string \<Rightarrow> Value \<Rightarrow> (nat \<Rightarrow> ObjectRecord) \<Rightarrow> (nat \<Rightarrow> ObjectRecord)"

text \<open>
  The for-in statement: its left part is a variable declaration, with its kind and the names
  it binds (\<open>BoundNames\<close>), or a left-hand side expression; of its right part the evaluator
  itself reads the location only.
\<close>

datatype ForInLeft = LeftDeclaration string "string list" | LeftExpression

record ForInStatementNode =
  left :: ForInLeft
  right_loc :: "SourceLocation option"

fun BoundNames :: "ForInLeft \<Rightarrow> string list" where
  "BoundNames (LeftDeclaration k names) = names"
| "BoundNames LeftExpression = []"

definition reportError :: "SourceLocation option \<Rightarrow> 'r Realm_scheme \<Rightarrow> Thrown \<times> 'r Realm_scheme" where
  "reportError l realm =
     (let error = \<lparr>diagnosticMessage = ''for in loops over unknown objects are not yet supported'',
                   location = l, errorCode = ''PP0013'', severity = ''FatalError''\<rparr>
      in (FatalError, handleError error realm))"

text \<open>Modelled from the spec: \<open>NewDeclarativeEnvironment\<close> of the Standard (8.1.2.2).\<close>

definition NewDeclarativeEnvironment :: "LexicalEnvironment \<Rightarrow> LexicalEnvironment" where
  "NewDeclarativeEnvironment E =
     LexicalEnvironment (Declarative \<lparr>bindings = Map.empty, isReadOnly = False\<rparr>) (Some E)"

text \<open>An element of an argument array; \<open>None\<close> is the \<open>undefined\<close> read beyond its end.\<close>

definition arg_at :: "Value list \<Rightarrow> nat \<Rightarrow> Value option" where
  "arg_at xs i = (if i < length xs then Some (xs ! i) else None)"

lemma arg_at_size: "arg_at xs i = Some x \<Longrightarrow> size x < Suc (size_list size xs)"
proof -
  assume "arg_at xs i = Some x"
  then have "x \<in> set xs" by (auto simp: arg_at_def split: if_splits)
  then have "size x \<le> size_list size xs" by (rule size_list_estimation') simp
  then show ?thesis by simp
qed

text \<open>
  The \<open>while\<close> loop that looks for an expression of the form \<open>sourceObject[absStr]\<close>; the
  result is the source object found, or \<open>None\<close> when the loop leaves \<open>sourceObject\<close> as it is.
\<close>

function find_source :: "Value \<Rightarrow> Value \<Rightarrow> Value option" where
  "find_source absStr mem =
     (case mem of
        AbstractValue i t vs k margs \<Rightarrow>
          if k = Some ''sentinel member expression''
             \<and> (case arg_at margs 0 of Some a0 \<Rightarrow> isObjectValue a0 | None \<Rightarrow> False)
             \<and> arg_at margs 1 = Some absStr
          then arg_at margs 0
          else
            (case arg_at margs 0 of
               Some (AbstractValue ci ct cvs ck cargs) \<Rightarrow>
                 if ck = Some ''check for known property'' \<and> arg_at cargs 0 = Some absStr
                 then (case arg_at margs 2 of
                         Some next \<Rightarrow> find_source absStr next
                       | None \<Rightarrow> None)
                 else None
             | _ \<Rightarrow> None)
      | _ \<Rightarrow> None)"
  by pat_completeness auto
termination
  by (relation "measure (\<lambda>(absStr, mem). size mem)") (auto dest: arg_at_size)

declare find_source.simps [simp del]

text \<open>
  The loop over \<open>BoundNames(realm, lh)\<close>: \<open>boundName\<close> is \<open>None\<close> while undefined. The realm
  is returned on every path, also when an invariant fails.
\<close>

fun bind_names ::
  "Value \<Rightarrow> string list \<Rightarrow> Expr option \<Rightarrow> DeclarativeEnvironmentRecord \<Rightarrow> 'r Realm_scheme
     \<Rightarrow> (Thrown + Expr option \<times> DeclarativeEnvironmentRecord) \<times> 'r Realm_scheme" where
  "bind_names absStr [] boundName envRec realm = (Inr (boundName, envRec), realm)"
| "bind_names absStr (n # names) boundName envRec realm =
     (if boundName \<noteq> None then (Inl InvariantViolation, realm)
      else
        (case CreateMutableBinding n False envRec realm of
           (Inl thrown, envRec1, realm1) \<Rightarrow> (Inl thrown, realm1)
         | (Inr created, envRec1, realm1) \<Rightarrow>
             (case InitializeBinding n absStr envRec1 realm1 of
                (Inl thrown, envRec2, realm2) \<Rightarrow> (Inl thrown, realm2)
              | (Inr initialised, envRec2, realm2) \<Rightarrow>
                  bind_names absStr names (Some (Identifier n)) envRec2 realm2)))"

text \<open>
  The callback of \<open>properties.forEach\<close>, on the variables \<open>targetObject\<close> and \<open>sourceObject\<close>
  that it assigns (\<open>None\<close> while undefined).
\<close>

definition inspect_property ::
  "Value \<Rightarrow> PropertyBinding \<times> Descriptor option \<Rightarrow> Value option \<times> Value option
     \<Rightarrow> Thrown + Value option \<times> Value option" where
  "inspect_property absStr entry found =
     (case (entry, found) of
        ((PropertyBinding object slot, desc), (targetObject, sourceObject)) \<Rightarrow>
          if slot = UnknownProperty then
            (case desc of
               None \<Rightarrow> Inl InvariantViolation
             | Some d \<Rightarrow>
                 (case desc_value d of
                    Some (AbstractValue i t vs k sargs) \<Rightarrow>
                      if \<not> (case arg_at sargs 0 of
                                Some (AbstractValue ci ct cvs ck cargs) \<Rightarrow>
                                  ck = Some ''template for property name condition''
                              | _ \<Rightarrow> False)
                      then Inl InvariantViolation
                      else if arg_at sargs 2 = Some UndefinedValue then
                        (case arg_at sargs 1 of
                           Some mem \<Rightarrow>
                             (case find_source absStr mem of
                                Some src \<Rightarrow> Inr (Some object, Some src)
                              | None \<Rightarrow> Inr (Some object, sourceObject))
                         | None \<Rightarrow> Inr (Some object, sourceObject))
                      else Inr (Some object, sourceObject)
                  | _ \<Rightarrow> Inr (Some object, sourceObject)))
          else Inr (targetObject, sourceObject))"

fun for_each_property ::
  "Value \<Rightarrow> (PropertyBinding \<times> Descriptor option) list \<Rightarrow> Value option \<times> Value option
     \<Rightarrow> Thrown + Value option \<times> Value option" where
  "for_each_property absStr [] found = Inr found"
| "for_each_property absStr (entry # rest) found =
     (case inspect_property absStr entry found of
        Inl thrown \<Rightarrow> Inl thrown
      | Inr found' \<Rightarrow> for_each_property absStr rest found')"

text \<open>
  The test of the effects of the body: \<open>Inr (Some (targetObject, sourceObject))\<close> when the body
  is accepted (both \<open>if\<close> conditions hold), \<open>Inr None\<close> when control falls through to
  \<open>reportError\<close>, \<open>Inl\<close> when an invariant fails.
\<close>

definition analyse_effects :: "Value \<Rightarrow> 'c Effects \<Rightarrow> Thrown + (Value \<times> Value) option" where
  "analyse_effects absStr effects =
     (case effects of
        (compl, gen, modified, props, createdObj) \<Rightarrow>
          if (case compl of Inr v \<Rightarrow> True | Inl completion \<Rightarrow> False) \<and> body gen = []
             \<and> length modified = 0 \<and> length props = 1
          then
            (if length createdObj \<noteq> 0 then Inl InvariantViolation
             else
               (case for_each_property absStr props (None, None) of
                  Inl thrown \<Rightarrow> Inl thrown
                | Inr (targetObject, sourceObject) \<Rightarrow>
                    (case targetObject of
                       Some target \<Rightarrow>
                         if isObjectValue target then
                           (case sourceObject of
                              Some src \<Rightarrow> Inr (Some (target, src))
                            | None \<Rightarrow> Inr None)
                         else Inr None
                     | None \<Rightarrow> Inr None)))
          else Inr None)"

text \<open>
  \<open>o\<close> (named \<open>ob'\<close> below): the object iterated over, which is \<open>ob\<close> itself or, for an abstract object with a
  single candidate, that candidate.
\<close>

definition iterated_object :: "Value \<Rightarrow> Value" where
  "iterated_object ob =
     (case ob of
        AbstractValue i t (Elements [oe]) k a \<Rightarrow>
          if getType t = ObjectValue_class then oe else ob
      | _ \<Rightarrow> ob)"

text \<open>
  The node of the declaration \<open>lh\<close> (its declarators have no initializer) and the build
  function of the residual loop. The invariant of the build function, that \<open>boundName\<close> is
  defined, holds when the declaration binds a name; build functions have no way to throw here,
  and an undefined \<open>boundName\<close> is built as \<open>UndefinedNode\<close>.
\<close>

fun lh_node :: "ForInLeft \<Rightarrow> Stmt" where
  "lh_node (LeftDeclaration k names) =
     VariableDeclaration k (map (\<lambda>n. (Identifier n, UndefinedNode)) names)"
| "lh_node LeftExpression = BlockStatement []"

definition residual_loop ::
  "ForInLeft \<Rightarrow> Expr option \<Rightarrow> Expr list \<Rightarrow> 'c SerializationContext \<Rightarrow> 'c \<Rightarrow> Stmt \<times> 'c" where
  "residual_loop lh boundName nodes ctx c =
     (let name = (case boundName of Some b \<Rightarrow> b | None \<Rightarrow> UndefinedNode)
      in (ForInStatement (lh_node lh) (node_at nodes 0)
            (BlockStatement
               [ExpressionStatement
                  (AssignmentExpression ''=''
                     (MemberExpression (node_at nodes 1) name True)
                     (MemberExpression (node_at nodes 2) name True))]), c))"

text \<open>
  The statements of the accepted case, from \<open>let o = ob\<close> to \<open>return\<close>: the result is the
  value returned, or what a failed invariant throws.
\<close>

definition accept_loop ::
  "'c Collaborators \<Rightarrow> ForInLeft \<Rightarrow> Expr option \<Rightarrow> Value \<Rightarrow> Value \<Rightarrow> Value
     \<Rightarrow> 'c GeneratorRealm \<Rightarrow> (Thrown + Value) \<times> 'c GeneratorRealm" where
  "accept_loop m lh boundName ob targetObject sourceObject realm =
     (let ob' = iterated_object ob
      in case generator realm of
           None \<Rightarrow> (Inl InvariantViolation, realm)
         | Some g \<Rightarrow>
             (case targetObject of
                ObjectValue target \<Rightarrow>
                  (let h1 = makePartial target (makeSimple target (heap realm))
                   in case (if sourceObject = ob' then
                              if \<not> isPartialObject h1 sourceObject then Inl InvariantViolation
                              else
                                (case sourceObject of
                                   ObjectValue src \<Rightarrow>
                                     (let h2 = makeNotPartial src h1;
                                          keyValPairs = EnumerableOwnProperties m h2 src;
                                          h3 = makePartial src h2
                                      in Inr (foldl (\<lambda>h (key, val). Set_property m target key val h)
                                                h3 keyValPairs))
                                 | _ \<Rightarrow> Inl InvariantViolation)
                            else Inr h1)
                      of Inl thrown \<Rightarrow> (Inl thrown, realm\<lparr>heap := h1\<rparr>)
                       | Inr h \<Rightarrow>
                           (Inr UndefinedValue,
                            realm\<lparr>heap := h,
                              generator := Some (g\<lparr>body := body g @
                                [\<lparr>declared = None,
                                  args = [ob', targetObject, sourceObject, targetObject,
                                          sourceObject],
                                  buildNode = residual_loop lh boundName,
                                  isPure = None\<rparr>]\<rparr>)\<rparr>))
              | _ \<Rightarrow> (Inl InvariantViolation, realm)))"

text \<open>
  The \<open>try\<close> block of \<open>emitResidualLoopIfSafe\<close>, in two parts. First the block environment
  is prepared: the abstract string \<open>absStr\<close> is created and every bound name is bound to it;
  \<open>blockEnv\<close>, the lexical environment of the running context, holds the record so changed.
  Then the body is evaluated for effects and the effects are tested: the result is
  \<open>Inr (Some v)\<close> when the block returns \<open>v\<close>, \<open>Inr None\<close> when it ends without returning.
\<close>

definition loop_setup ::
  "ForInLeft \<Rightarrow> LexicalEnvironment \<Rightarrow> 'r Realm_scheme
     \<Rightarrow> (Thrown + Value \<times> Expr option \<times> LexicalEnvironment) \<times> 'r Realm_scheme" where
  "loop_setup lh blockEnv realm =
     (case blockEnv of
        LexicalEnvironment (Declarative envRec) parent \<Rightarrow>
          (case createAbstract (TypesDomain StringValue_class) TopVal [] None realm of
             (absStr, realm1) \<Rightarrow>
               (case bind_names absStr (BoundNames lh) None envRec realm1 of
                  (Inl thrown, realm2) \<Rightarrow> (Inl thrown, realm2)
                | (Inr (boundName, envRec'), realm2) \<Rightarrow>
                    (let blockEnv' = LexicalEnvironment (Declarative envRec') parent
                     in (Inr (absStr, boundName, blockEnv'),
                         realm2\<lparr>lexicalEnvironment := blockEnv'\<rparr>))))
      | _ \<Rightarrow> (Inl InvariantViolation, realm))"

definition residual_loop_try ::
  "'c Collaborators \<Rightarrow> ForInLeft \<Rightarrow> Value \<Rightarrow> LexicalEnvironment \<Rightarrow> 'c GeneratorRealm
     \<Rightarrow> (Thrown + Value option) \<times> 'c GeneratorRealm" where
  "residual_loop_try m lh ob blockEnv realm =
     (case loop_setup lh blockEnv realm of
        (Inl thrown, realm3) \<Rightarrow> (Inl thrown, realm3)
      | (Inr (absStr, boundName, blockEnv'), realm3) \<Rightarrow>
          (case evaluateNodeForEffects m blockEnv' realm3 of
             Inl thrown \<Rightarrow> (Inl thrown, realm3)
           | Inr effects \<Rightarrow>
               (case analyse_effects absStr effects of
                  Inl thrown \<Rightarrow> (Inl thrown, realm3)
                | Inr None \<Rightarrow> (Inr None, realm3)
                | Inr (Some (targetObject, sourceObject)) \<Rightarrow>
                    (case accept_loop m lh boundName ob targetObject sourceObject realm3 of
                       (Inl thrown, realm4) \<Rightarrow> (Inl thrown, realm4)
                     | (Inr v, realm4) \<Rightarrow> (Inr (Some v), realm4)))))"

text \<open>
  The preparation as \<open>emitResidualLoopIfSafe\<close> starts it: on a new declarative environment
  whose parent is the lexical environment of the running context.
\<close>

definition speculation_start ::
  "ForInLeft \<Rightarrow> 'r Realm_scheme
     \<Rightarrow> (Thrown + Value \<times> Expr option \<times> LexicalEnvironment) \<times> 'r Realm_scheme" where
  "speculation_start lh realm =
     loop_setup lh (NewDeclarativeEnvironment (lexicalEnvironment realm))
       (realm\<lparr>lexicalEnvironment := NewDeclarativeEnvironment (lexicalEnvironment realm)\<rparr>)"

text \<open>
  \<open>emitResidualLoopIfSafe\<close>: the \<open>finally\<close> clause restores the lexical environment on every
  path; after the \<open>try\<close> statement comes \<open>reportError\<close>, which always throws.
\<close>

definition emitResidualLoopIfSafe ::
  "'c Collaborators \<Rightarrow> ForInLeft \<Rightarrow> SourceLocation option \<Rightarrow> Value \<Rightarrow> 'c GeneratorRealm
     \<Rightarrow> (Thrown + Value) \<times> 'c GeneratorRealm" where
  "emitResidualLoopIfSafe m lh obexpr_loc ob realm =
     (if \<not> isSimpleObject (heap realm) ob then (Inl InvariantViolation, realm)
      else
        (let oldEnv = lexicalEnvironment realm;
             blockEnv = NewDeclarativeEnvironment oldEnv
         in case residual_loop_try m lh ob blockEnv (realm\<lparr>lexicalEnvironment := blockEnv\<rparr>) of
              (Inl thrown, realm') \<Rightarrow> (Inl thrown, realm'\<lparr>lexicalEnvironment := oldEnv\<rparr>)
            | (Inr (Some v), realm') \<Rightarrow> (Inr v, realm'\<lparr>lexicalEnvironment := oldEnv\<rparr>)
            | (Inr None, realm') \<Rightarrow>
                (case reportError obexpr_loc (realm'\<lparr>lexicalEnvironment := oldEnv\<rparr>) of
                   (thrown, realm'') \<Rightarrow> (Inl thrown, realm''))))"

text \<open>
  The evaluator, the default export of the file, is named \<open>ForInStatement_evaluator\<close>; its
  \<open>try\<close> block is \<open>ForInStatement_try\<close>. \<open>reportErrorAndThrowIfNotConcrete\<close> gives what it
  throws, if it throws.
  Modelled from the spec: \<open>UpdateEmpty\<close> of the Standard (6.2.2.5) replaces the empty value of
  a completion. A label is falsy when undefined or empty.
\<close>

definition reportErrorAndThrowIfNotConcrete ::
  "Value \<Rightarrow> SourceLocation option \<Rightarrow> 'r Realm_scheme \<Rightarrow> Thrown option \<times> 'r Realm_scheme" where
  "reportErrorAndThrowIfNotConcrete val l realm =
     (if isAbstractValue val then (case reportError l realm of (thrown, realm') \<Rightarrow> (Some thrown, realm'))
      else (None, realm))"

definition UpdateEmpty_value :: "Value \<Rightarrow> Value \<Rightarrow> Value" where
  "UpdateEmpty_value completionValue v = (if completionValue = EmptyValue then v else completionValue)"

definition head_then_body ::
  "'c Collaborators \<Rightarrow> string list \<Rightarrow> string \<Rightarrow> SourceLocation option \<Rightarrow> 'c GeneratorRealm
     \<Rightarrow> (Thrown + Value) \<times> 'c GeneratorRealm" where
  "head_then_body m names lhsKind l realm =
     (case ForInOfHeadEvaluation m names realm of
        (Inl thrown, realm1) \<Rightarrow> (Inl thrown, realm1)
      | (Inr keyResult, realm1) \<Rightarrow>
          (case reportErrorAndThrowIfNotConcrete keyResult l realm1 of
             (Some thrown, realm2) \<Rightarrow> (Inl thrown, realm2)
           | (None, realm2) \<Rightarrow>
               if \<not> isObjectValue keyResult then (Inl InvariantViolation, realm2)
               else ForInOfBodyEvaluation m lhsKind keyResult realm2))"

definition ForInStatement_try ::
  "'c Collaborators \<Rightarrow> ForInStatementNode \<Rightarrow> 'c GeneratorRealm
     \<Rightarrow> (Thrown + Value) \<times> 'c GeneratorRealm" where
  "ForInStatement_try m ast realm =
     (case left ast of
        LeftDeclaration k names \<Rightarrow>
          if k = ''var'' then
            (case ForInOfHeadEvaluation m [] realm of
               (Inl thrown, realm1) \<Rightarrow> (Inl thrown, realm1)
             | (Inr keyResult, realm1) \<Rightarrow>
                 if isPartialObject (heap realm1) keyResult \<and> isSimpleObject (heap realm1) keyResult
                 then emitResidualLoopIfSafe m (left ast) (right_loc ast) keyResult realm1
                 else
                   (case reportErrorAndThrowIfNotConcrete keyResult (right_loc ast) realm1 of
                      (Some thrown, realm2) \<Rightarrow> (Inl thrown, realm2)
                    | (None, realm2) \<Rightarrow>
                        if \<not> isObjectValue keyResult then (Inl InvariantViolation, realm2)
                        else ForInOfBodyEvaluation m ''varBinding'' keyResult realm2))
          else head_then_body m (BoundNames (left ast)) ''lexicalBinding'' (right_loc ast) realm
      | LeftExpression \<Rightarrow> head_then_body m [] ''assignment'' (right_loc ast) realm)"

definition ForInStatement_evaluator ::
  "'c Collaborators \<Rightarrow> ForInStatementNode \<Rightarrow> 'c GeneratorRealm
     \<Rightarrow> (Thrown + Value) \<times> 'c GeneratorRealm" where
  "ForInStatement_evaluator m ast realm =
     (case ForInStatement_try m ast realm of
        (Inl (BreakCompletion v target), realm') \<Rightarrow>
          if (case target of Some label \<Rightarrow> label = [] | None \<Rightarrow> True)
          then (Inr (UpdateEmpty_value v UndefinedValue), realm')
          else (Inl (BreakCompletion v target), realm')
      | (result, realm') \<Rightarrow> (result, realm'))"

text \<open>The names that the evaluator passes to \<open>ForInOfHeadEvaluation\<close>.\<close>

definition head_names :: "ForInLeft \<Rightarrow> string list" where
  "head_names l =
     (case l of
        LeftDeclaration k names \<Rightarrow> if k = ''var'' then [] else names
      | LeftExpression \<Rightarrow> [])"

definition PP0013 :: "SourceLocation option \<Rightarrow> CompilerDiagnostic" where
  "PP0013 l = \<lparr>diagnosticMessage = ''for in loops over unknown objects are not yet supported'',
      location = l, errorCode = ''PP0013'', severity = ''FatalError''\<rparr>"

lemma reportError_PP0013:
  "reportError l realm = (FatalError, realm\<lparr>handledErrors := handledErrors realm @ [PP0013 l]\<rparr>)"
  by (simp add: reportError_def handleError_def PP0013_def Let_def)

text \<open>
  Claim C2. When the head of a for-in statement evaluates to an abstract value that is not
  both a partial and a simple object, the evaluator passes to the realm's error handler one
  diagnostic, with the code \<open>PP0013\<close>, and throws \<open>FatalError\<close>: it does not return a value.
\<close>

theorem ForInStatement_abstract_head:
  assumes "ForInOfHeadEvaluation m (head_names (left ast)) realm = (Inr keyResult, realm1)"
    and "isAbstractValue keyResult"
    and "\<not> (isPartialObject (heap realm1) keyResult \<and> isSimpleObject (heap realm1) keyResult)"
  shows "ForInStatement_evaluator m ast realm
      = (Inl FatalError,
         realm1\<lparr>handledErrors := handledErrors realm1 @ [PP0013 (right_loc ast)]\<rparr>)
    \<and> errorCode (PP0013 (right_loc ast)) = ''PP0013''"
proof -
  have "ForInStatement_try m ast realm
      = (Inl FatalError,
         realm1\<lparr>handledErrors := handledErrors realm1 @ [PP0013 (right_loc ast)]\<rparr>)"
  proof (cases "left ast")
    case (LeftDeclaration k names)
    then show ?thesis
      using assms
      by (cases "k = ''var''")
        (auto simp: ForInStatement_try_def head_then_body_def head_names_def
          reportErrorAndThrowIfNotConcrete_def reportError_PP0013)
  next
    case LeftExpression
    then show ?thesis
      using assms
      by (simp add: ForInStatement_try_def head_then_body_def head_names_def
          reportErrorAndThrowIfNotConcrete_def reportError_PP0013)
  qed
  then show ?thesis by (simp add: ForInStatement_evaluator_def PP0013_def)
qed

text \<open>
  An example: the object 0 is partial and simple and has the enumerable property \<open>a\<close>; the
  object 1 is empty. The collaborators evaluate the head to the object 0 and the body
  \<open>t[k] = s[k]\<close> to the write of \<open>s[k]\<close> to the unknown property of the object 1.
\<close>

definition example_heap :: "nat \<Rightarrow> ObjectRecord" where
  "example_heap n =
     (if n = 0 then
        \<lparr>properties =
           [(''a'', \<lparr>writable = Some True, enumerable = Some True, configurable = Some True,
                     desc_value = Some (BooleanValue True), desc_get = None, desc_set = None\<rparr>)],
         partial = True, simple = True\<rparr>
      else \<lparr>properties = [], partial = False, simple = False\<rparr>)"

definition example_for_in_realm :: "SerializerCall list GeneratorRealm" where
  "example_for_in_realm =
     \<lparr>nextAbstractId = 0, handledErrors = [], modifiedBindings = [], heap = example_heap,
      lexicalEnvironment = LexicalEnvironment (OtherEnvironmentRecord 0) None,
      generator = Some example_generator\<rparr>"

definition example_copy_effects :: "Value \<Rightarrow> SerializerCall list Effects" where
  "example_copy_effects absStr =
     (Inr UndefinedValue, example_generator, [],
      [(PropertyBinding (ObjectValue 1) UnknownProperty,
        Some \<lparr>writable = Some True, enumerable = Some True, configurable = Some True,
              desc_value = Some (AbstractValue 10 (TypesDomain Value_class) TopVal None
                [AbstractValue 11 (TypesDomain BooleanValue_class) TopVal
                   (Some ''template for property name condition'') [],
                 AbstractValue 12 (TypesDomain Value_class) TopVal
                   (Some ''sentinel member expression'') [ObjectValue 0, absStr],
                 UndefinedValue]),
              desc_get = None, desc_set = None\<rparr>)],
      [])"

definition example_collaborators :: "SerializerCall list Collaborators" where
  "example_collaborators =
     \<lparr>ForInOfHeadEvaluation = (\<lambda>names realm. (Inr (ObjectValue 0), realm)),
      ForInOfBodyEvaluation = (\<lambda>lhsKind keyResult realm. (Inr UndefinedValue, realm)),
      evaluateNodeForEffects = (\<lambda>blockEnv realm.
        Inr (example_copy_effects
          (AbstractValue (nextAbstractId realm - 1) (TypesDomain StringValue_class) TopVal None []))),
      EnumerableOwnProperties = (\<lambda>h n.
        map (\<lambda>(key, desc). (key, case desc_value desc of Some v \<Rightarrow> v | None \<Rightarrow> UndefinedValue))
          (filter (\<lambda>(key, desc). truthy (enumerable desc)) (properties (h n)))),
      Set_property = (\<lambda>target key val h.
        h(target := (h target)\<lparr>properties := properties (h target) @
          [(key, \<lparr>writable = Some True, enumerable = Some True, configurable = Some True,
                  desc_value = Some val, desc_get = None, desc_set = None\<rparr>)]\<rparr>))\<rparr>"

definition example_for_in :: ForInStatementNode where
  "example_for_in = \<lparr>left = LeftDeclaration ''var'' [''k''], right_loc = None\<rparr>"

definition example_abstract_object :: Value where
  "example_abstract_object = AbstractValue 9 (TypesDomain ObjectValue_class) TopVal None []"

theorem ForInStatement_abstract_head_witness:
  "isAbstractValue example_abstract_object
   \<and> \<not> (isPartialObject example_heap example_abstract_object
          \<and> isSimpleObject example_heap example_abstract_object)
   \<and> ForInStatement_evaluator
       (example_collaborators\<lparr>ForInOfHeadEvaluation :=
          (\<lambda>names realm. (Inr example_abstract_object, realm))\<rparr>)
       example_for_in example_for_in_realm
     = (Inl FatalError, example_for_in_realm\<lparr>handledErrors := [PP0013 None]\<rparr>)"
proof -
  let ?m = "example_collaborators\<lparr>ForInOfHeadEvaluation :=
          (\<lambda>names realm. (Inr example_abstract_object, realm))\<rparr>"
  have head: "ForInOfHeadEvaluation ?m (head_names (left example_for_in)) example_for_in_realm
      = (Inr example_abstract_object, example_for_in_realm)"
    by simp
  have abstract: "isAbstractValue example_abstract_object"
    by (simp add: isAbstractValue_def example_abstract_object_def)
  have unknown: "\<not> (isPartialObject (heap example_for_in_realm) example_abstract_object
          \<and> isSimpleObject (heap example_for_in_realm) example_abstract_object)"
    by (simp add: isPartialObject_def value_has_def example_abstract_object_def)
  show ?thesis
    using ForInStatement_abstract_head [OF head abstract unknown] abstract unknown
    by (simp add: example_for_in_realm_def example_for_in_def)
qed

subsection \<open>What the evaluator does with a partial and simple object\<close>

text \<open>
  Binding the loop variable touches the modification log only: the heap, the diagnostics, the
  generator and the lexical environment of the realm stay as they are.
\<close>

lemma bind_names_frame:
  fixes realm :: "'c GeneratorRealm"
  assumes "bind_names absStr names boundName envRec realm = (res, realm')"
  shows "heap realm' = heap realm \<and> handledErrors realm' = handledErrors realm
    \<and> generator realm' = generator realm \<and> lexicalEnvironment realm' = lexicalEnvironment realm"
  using assms
proof (induction names arbitrary: boundName envRec realm)
  case Nil
  then show ?case by simp
next
  case (Cons n names)
  show ?case
  proof (cases "boundName \<noteq> None")
    case True
    then show ?thesis using Cons.prems by simp
  next
    case False
    obtain c envRec1 realm1 where c: "CreateMutableBinding n False envRec realm = (c, envRec1, realm1)"
      by (cases "CreateMutableBinding n False envRec realm")
    have f1: "heap realm1 = heap realm \<and> handledErrors realm1 = handledErrors realm
        \<and> generator realm1 = generator realm \<and> lexicalEnvironment realm1 = lexicalEnvironment realm"
      using c by (auto simp: CreateMutableBinding_def recordModifiedBinding_def split: if_splits)
    show ?thesis
    proof (cases c)
      case (Inl thrown)
      then show ?thesis using Cons.prems False c f1 by simp
    next
      case (Inr created)
      obtain i envRec2 realm2 where i: "InitializeBinding n absStr envRec1 realm1 = (i, envRec2, realm2)"
        by (cases "InitializeBinding n absStr envRec1 realm1")
      have f2: "heap realm2 = heap realm1 \<and> handledErrors realm2 = handledErrors realm1
          \<and> generator realm2 = generator realm1
          \<and> lexicalEnvironment realm2 = lexicalEnvironment realm1"
        using i
        by (auto simp: InitializeBinding_def recordModifiedBinding_def
            split: if_splits option.splits)
      show ?thesis
      proof (cases i)
        case (Inl thrown)
        then show ?thesis using Cons.prems False c Inr i f1 f2 by simp
      next
        case (Inr initialised)
        then have "bind_names absStr names (Some (Identifier n)) envRec2 realm2 = (res, realm')"
          using Cons.prems False c \<open>c = Inr created\<close> i by simp
        from Cons.IH [OF this] show ?thesis using f1 f2 by simp
      qed
    qed
  qed
qed

lemma speculation_start_frame:
  fixes realm :: "'c GeneratorRealm"
  assumes "speculation_start lh realm = (res, realm3)"
  shows "heap realm3 = heap realm \<and> handledErrors realm3 = handledErrors realm
    \<and> generator realm3 = generator realm"
proof -
  let ?E = "NewDeclarativeEnvironment (lexicalEnvironment realm)"
  let ?r0 = "realm\<lparr>lexicalEnvironment := ?E\<rparr>"
  let ?r1 = "snd (createAbstract (TypesDomain StringValue_class) TopVal [] None ?r0)"
  let ?absStr = "fst (createAbstract (TypesDomain StringValue_class) TopVal [] None ?r0)"
  let ?envRec = "\<lparr>bindings = Map.empty, isReadOnly = False\<rparr>"
  obtain b realm2 where b: "bind_names ?absStr (BoundNames lh) None ?envRec ?r1 = (b, realm2)"
    by (cases "bind_names ?absStr (BoundNames lh) None ?envRec ?r1")
  have f: "heap realm2 = heap ?r1 \<and> handledErrors realm2 = handledErrors ?r1
      \<and> generator realm2 = generator ?r1"
    using bind_names_frame [OF b] by simp
  have r1: "heap ?r1 = heap realm \<and> handledErrors ?r1 = handledErrors realm
      \<and> generator ?r1 = generator realm"
    by (simp add: createAbstract_def)
  show ?thesis
    using assms b f r1
    by (cases b)
      (auto simp: speculation_start_def loop_setup_def NewDeclarativeEnvironment_def
        case_prod_beta Let_def)
qed

text \<open>The source object and the target object that the test of the effects finds are objects.\<close>

lemma find_source_object: "find_source absStr mem = Some s \<Longrightarrow> isObjectValue s"
proof (induction absStr mem rule: find_source.induct)
  case (1 absStr mem)
  from "1.prems" have unfolded:
    "(case mem of
        AbstractValue i t vs k margs \<Rightarrow>
          if k = Some ''sentinel member expression''
             \<and> (case arg_at margs 0 of Some a0 \<Rightarrow> isObjectValue a0 | None \<Rightarrow> False)
             \<and> arg_at margs 1 = Some absStr
          then arg_at margs 0
          else
            (case arg_at margs 0 of
               Some (AbstractValue ci ct cvs ck cargs) \<Rightarrow>
                 if ck = Some ''check for known property'' \<and> arg_at cargs 0 = Some absStr
                 then (case arg_at margs 2 of
                         Some next \<Rightarrow> find_source absStr next
                       | None \<Rightarrow> None)
                 else None
             | _ \<Rightarrow> None)
      | _ \<Rightarrow> None) = Some s"
    by (subst (asm) find_source.simps)
  then show ?case
    using "1.IH"
    by (auto split: Value.splits if_splits option.splits)
qed

lemma inspect_property_source:
  assumes "inspect_property absStr entry (t0, s0) = Inr (t1, s1)"
  shows "s1 = s0 \<or> (\<exists>x. s1 = Some x \<and> isObjectValue x)"
  using assms
  by (auto simp: inspect_property_def split: prod.splits PropertyBinding.splits if_splits
      option.splits Value.splits dest: find_source_object) (metis find_source_object)

lemma for_each_property_source:
  assumes "for_each_property absStr props (t0, s0) = Inr (t1, s1)"
  shows "s1 = s0 \<or> (\<exists>x. s1 = Some x \<and> isObjectValue x)"
  using assms
proof (induction props arbitrary: t0 s0)
  case Nil
  then show ?case by simp
next
  case (Cons entry props)
  from Cons.prems obtain t' s' where step: "inspect_property absStr entry (t0, s0) = Inr (t', s')"
    and rest: "for_each_property absStr props (t', s') = Inr (t1, s1)"
    by (auto split: sum.splits)
  from inspect_property_source [OF step] Cons.IH [OF rest] show ?case by auto
qed

lemma analyse_effects_objects:
  assumes "analyse_effects absStr effects = Inr (Some (targetObject, sourceObject))"
  shows "isObjectValue targetObject \<and> isObjectValue sourceObject"
proof -
  obtain compl gen modified props createdObj
    where fx: "effects = (compl, gen, modified, props, createdObj)"
    by (cases effects)
  from assms obtain t1 s1 where fe: "for_each_property absStr props (None, None) = Inr (t1, s1)"
    and t: "t1 = Some targetObject" and s: "s1 = Some sourceObject"
    and obj: "isObjectValue targetObject"
    unfolding fx analyse_effects_def
    by (auto split: if_splits sum.splits option.splits)
  from for_each_property_source [OF fe] s have "isObjectValue sourceObject" by auto
  with obj show ?thesis by simp
qed

lemma iterated_object_partial:
  assumes "isPartialObject h ob" and "iterated_object ob = ObjectValue src"
  shows "partial (h src)"
proof (cases ob)
  case (ObjectValue n)
  then show ?thesis
    using assms by (simp add: iterated_object_def isPartialObject_def value_has_def)
next
  case (AbstractValue i t vs k a)
  then show ?thesis
    using assms
    by (auto simp: iterated_object_def isPartialObject_def value_has_def object_has_def
        split: ValuesDomain.splits list.splits if_splits)
qed (use assms in \<open>simp_all add: iterated_object_def\<close>)

lemma ForInStatement_try_var:
  assumes "left ast = LeftDeclaration ''var'' names"
    and "ForInOfHeadEvaluation m [] realm = (Inr ob, realm1)"
    and "isPartialObject (heap realm1) ob" and "isSimpleObject (heap realm1) ob"
  shows "ForInStatement_try m ast realm
    = emitResidualLoopIfSafe m (left ast) (right_loc ast) ob realm1"
  using assms by (simp add: ForInStatement_try_def)

lemma residual_loop_try_effects:
  assumes "speculation_start lh realm1 = (Inr (absStr, boundName, blockEnv), realm3)"
    and "evaluateNodeForEffects m blockEnv realm3 = Inr effects"
  shows "residual_loop_try m lh ob (NewDeclarativeEnvironment (lexicalEnvironment realm1))
      (realm1\<lparr>lexicalEnvironment := NewDeclarativeEnvironment (lexicalEnvironment realm1)\<rparr>)
    = (case analyse_effects absStr effects of
         Inl thrown \<Rightarrow> (Inl thrown, realm3)
       | Inr None \<Rightarrow> (Inr None, realm3)
       | Inr (Some (targetObject, sourceObject)) \<Rightarrow>
           (case accept_loop m lh boundName ob targetObject sourceObject realm3 of
              (Inl thrown, realm4) \<Rightarrow> (Inl thrown, realm4)
            | (Inr v, realm4) \<Rightarrow> (Inr (Some v), realm4)))"
  using assms by (simp add: residual_loop_try_def speculation_start_def)

text \<open>The heap after the copy loop of the accepted case, from the heap before it.\<close>

definition copied_heap ::
  "'c Collaborators \<Rightarrow> nat \<Rightarrow> nat \<Rightarrow> (nat \<Rightarrow> ObjectRecord) \<Rightarrow> (nat \<Rightarrow> ObjectRecord)" where
  "copied_heap m target src h =
     (let h2 = makeNotPartial src (makePartial target (makeSimple target h))
      in foldl (\<lambda>h' (key, val). Set_property m target key val h') (makePartial src h2)
           (EnumerableOwnProperties m h2 src))"

lemma accept_loop_copy:
  assumes "generator realm3 = Some g"
    and "iterated_object ob = ObjectValue src"
    and "isPartialObject (heap realm3) ob"
  shows "accept_loop m lh boundName ob (ObjectValue target) (ObjectValue src) realm3
    = (Inr UndefinedValue,
       realm3\<lparr>heap := copied_heap m target src (heap realm3),
         generator := Some (g\<lparr>body := body g @
           [\<lparr>declared = None,
             args = [ObjectValue src, ObjectValue target, ObjectValue src, ObjectValue target,
                     ObjectValue src],
             buildNode = residual_loop lh boundName,
             isPure = None\<rparr>]\<rparr>)\<rparr>)"
proof -
  have "partial (heap realm3 src)" using assms(2,3) iterated_object_partial by blast
  then have "isPartialObject (makePartial target (makeSimple target (heap realm3)))
      (ObjectValue src)"
    by (simp add: isPartialObject_def value_has_def makePartial_def makeSimple_def)
  then show ?thesis
    using assms(1,2) by (simp add: accept_loop_def copied_heap_def Let_def)
qed

text \<open>
  The loop over the bound names ends without a failed invariant only for a declaration that
  binds at most one name, and \<open>boundName\<close> is then the identifier of that name. The iterated
  object of a partial head is the head itself, or the single candidate of an abstract head.
  Serializing the entry of the residual loop serializes its five arguments from left to right
  and emits the loop built on the first three nodes.
\<close>

lemma bind_names_defined:
  "bind_names absStr names (Some b) envRec realm = (Inr (boundName, envRec'), realm')
     \<Longrightarrow> names = [] \<and> boundName = Some b"
  by (cases names) simp_all

lemma bind_names_boundName:
  assumes "bind_names absStr names None envRec realm = (Inr (boundName, envRec'), realm')"
  shows "(names = [] \<and> boundName = None) \<or> (\<exists>n. names = [n] \<and> boundName = Some (Identifier n))"
proof (cases names)
  case Nil
  then show ?thesis using assms by simp
next
  case (Cons n rest)
  obtain c envRec1 realm1 where c: "CreateMutableBinding n False envRec realm = (c, envRec1, realm1)"
    by (cases "CreateMutableBinding n False envRec realm")
  obtain i envRec2 realm2 where i: "InitializeBinding n absStr envRec1 realm1 = (i, envRec2, realm2)"
    by (cases "InitializeBinding n absStr envRec1 realm1")
  from assms Cons c i
  have "bind_names absStr rest (Some (Identifier n)) envRec2 realm2
      = (Inr (boundName, envRec'), realm')"
    by (cases c; cases i) simp_all
  from bind_names_defined [OF this] Cons show ?thesis by simp
qed

lemma speculation_start_boundName:
  assumes "speculation_start (LeftDeclaration k names) realm
      = (Inr (absStr, boundName, blockEnv), realm3)"
  shows "(names = [] \<and> boundName = None) \<or> (\<exists>n. names = [n] \<and> boundName = Some (Identifier n))"
proof -
  let ?E = "NewDeclarativeEnvironment (lexicalEnvironment realm)"
  let ?r0 = "realm\<lparr>lexicalEnvironment := ?E\<rparr>"
  let ?r1 = "snd (createAbstract (TypesDomain StringValue_class) TopVal [] None ?r0)"
  let ?absStr = "fst (createAbstract (TypesDomain StringValue_class) TopVal [] None ?r0)"
  let ?envRec = "\<lparr>bindings = Map.empty, isReadOnly = False\<rparr>"
  obtain b realm2 where b: "bind_names ?absStr names None ?envRec ?r1 = (b, realm2)"
    by (cases "bind_names ?absStr names None ?envRec ?r1")
  from assms b obtain envRec' where "b = Inr (boundName, envRec')"
    by (cases b)
      (auto simp: speculation_start_def loop_setup_def NewDeclarativeEnvironment_def
        case_prod_beta Let_def)
  with b show ?thesis using bind_names_boundName by blast
qed

lemma iterated_object_head:
  assumes "isPartialObject h ob"
    and "ob = ObjectValue src \<or> ob = AbstractValue i t (Elements [ObjectValue src]) k a"
  shows "iterated_object ob = ObjectValue src"
  using assms
  by (auto simp: iterated_object_def isPartialObject_def value_has_def)

lemma residual_loop_serialize:
  assumes "serializeValue ctx ob' c = (obj, c1)"
    and "serializeValue ctx targetObject c1 = (tgt, c2)"
    and "serializeValue ctx sourceObject c2 = (source', c3)"
    and "serializeValue ctx targetObject c3 = (tgt1, c4)"
    and "serializeValue ctx sourceObject c4 = (source1, c5)"
  shows "serialize (gen\<lparr>body :=
        [\<lparr>declared = None,
          args = [ob', targetObject, sourceObject, targetObject, sourceObject],
          buildNode = residual_loop lh (Some name),
          isPure = None\<rparr>]\<rparr>) ctx c
    = emit ctx
        (ForInStatement (lh_node lh) obj
           (BlockStatement
              [ExpressionStatement
                 (AssignmentExpression ''=''
                    (MemberExpression tgt name True)
                    (MemberExpression source' name True))])) c5"
  using assms
  by (simp add: serialize_def serialize_entry_def truthy_def residual_loop_def node_at_def Let_def)

text \<open>
  Claim C3. Let a for-in statement with a \<open>var\<close> declaration have a head that evaluates to a
  partial and simple object, and let the effects of the speculatively evaluated body be
  accepted with the iterated object as the source: the source is the head itself, or the single
  candidate of an abstract head. Then the evaluator returns \<open>undefined\<close>; the realm's generator
  has exactly one entry more, with the arguments \<open>[o, target, source, target, source]\<close>, which
  declares nothing and is not marked pure; and the heap is the one obtained by making the
  target simple and partial and then applying \<open>$Set\<close> on the target, in order, to every pair
  that \<open>EnumerableOwnProperties\<close> gives for the source (read while the source is not partial,
  the source being partial again afterwards). No diagnostic is reported and the lexical
  environment of the running context is restored. The declaration binds at most one name. When
  it binds the name \<open>n\<close>, \<open>boundName\<close> is the identifier \<open>n\<close> and the entry builds the loop
  \<open>for (var n in obj) { tgt[n] = src[n]; }\<close> from the first three of the nodes it is given,
  whatever their number, and so from the five nodes that \<open>serialize\<close> hands it; serializing a
  body that consists of the entry serializes the five arguments from left to right and emits
  that loop on the nodes of \<open>o\<close>, of the target and of the source.
\<close>

theorem ForInStatement_residual_loop:
  assumes "left ast = LeftDeclaration ''var'' names"
    and "ForInOfHeadEvaluation m [] realm = (Inr ob, realm1)"
    and "isPartialObject (heap realm1) ob" and "isSimpleObject (heap realm1) ob"
    and "speculation_start (left ast) realm1 = (Inr (absStr, boundName, blockEnv), realm3)"
    and "evaluateNodeForEffects m blockEnv realm3 = Inr effects"
    and "analyse_effects absStr effects = Inr (Some (targetObject, sourceObject))"
    and "ob = sourceObject \<or> ob = AbstractValue i t (Elements [sourceObject]) k a"
    and "generator realm1 = Some g"
  shows "\<exists>target src entry. targetObject = ObjectValue target \<and> sourceObject = ObjectValue src
    \<and> ForInStatement_evaluator m ast realm
        = (Inr UndefinedValue,
           realm3\<lparr>lexicalEnvironment := lexicalEnvironment realm1,
             heap := copied_heap m target src (heap realm1),
             generator := Some (g\<lparr>body := body g @ [entry]\<rparr>)\<rparr>)
    \<and> handledErrors realm3 = handledErrors realm1
    \<and> declared entry = None \<and> isPure entry = None
    \<and> args entry = [sourceObject, targetObject, sourceObject, targetObject, sourceObject]
    \<and> length names \<le> 1
    \<and> (\<forall>n. names = [n] \<longrightarrow>
         boundName = Some (Identifier n)
         \<and> (\<forall>nodes ctx c. buildNode entry nodes ctx c =
              (ForInStatement (VariableDeclaration ''var'' [(Identifier n, UndefinedNode)])
                 (node_at nodes 0)
                 (BlockStatement
                    [ExpressionStatement
                       (AssignmentExpression ''=''
                          (MemberExpression (node_at nodes 1) (Identifier n) True)
                          (MemberExpression (node_at nodes 2) (Identifier n) True))]),
               c))
         \<and> (\<forall>obj tgt source' tgt1 source1 ctx c.
              buildNode entry [obj, tgt, source', tgt1, source1] ctx c =
              (ForInStatement (VariableDeclaration ''var'' [(Identifier n, UndefinedNode)]) obj
                 (BlockStatement
                    [ExpressionStatement
                       (AssignmentExpression ''=''
                          (MemberExpression tgt (Identifier n) True)
                          (MemberExpression source' (Identifier n) True))]),
               c))
         \<and> (\<forall>gen ctx c obj c1 tgt c2 source' c3 tgt1 c4 source1 c5.
              serializeValue ctx sourceObject c = (obj, c1)
              \<and> serializeValue ctx targetObject c1 = (tgt, c2)
              \<and> serializeValue ctx sourceObject c2 = (source', c3)
              \<and> serializeValue ctx targetObject c3 = (tgt1, c4)
              \<and> serializeValue ctx sourceObject c4 = (source1, c5)
              \<longrightarrow> serialize (gen\<lparr>body := [entry]\<rparr>) ctx c
                = emit ctx
                    (ForInStatement (VariableDeclaration ''var'' [(Identifier n, UndefinedNode)])
                       obj
                       (BlockStatement
                          [ExpressionStatement
                             (AssignmentExpression ''=''
                                (MemberExpression tgt (Identifier n) True)
                                (MemberExpression source' (Identifier n) True))])) c5))"
proof -
  from analyse_effects_objects [OF assms(7)]
  obtain target src where t: "targetObject = ObjectValue target"
    and s: "sourceObject = ObjectValue src"
    by (auto simp: isObjectValue_def split: Value.splits)
  have it: "iterated_object ob = ObjectValue src"
    using iterated_object_head [OF assms(3)] assms(8) s by simp
  note frame = speculation_start_frame [OF assms(5)]
  note bound = speculation_start_boundName [OF assms(5) [unfolded assms(1)]]
  let ?entry = "\<lparr>declared = None,
      args = [ObjectValue src, ObjectValue target, ObjectValue src, ObjectValue target,
              ObjectValue src],
      buildNode = residual_loop (left ast) boundName,
      isPure = None\<rparr> :: 'a GeneratorEntry"
  have accept: "accept_loop m (left ast) boundName ob targetObject sourceObject realm3
      = (Inr UndefinedValue,
         realm3\<lparr>heap := copied_heap m target src (heap realm3),
           generator := Some (g\<lparr>body := body g @ [?entry]\<rparr>)\<rparr>)"
    unfolding t s
    using assms(3,9) frame it by (intro accept_loop_copy) simp_all
  have "emitResidualLoopIfSafe m (left ast) (right_loc ast) ob realm1
      = (Inr UndefinedValue,
         realm3\<lparr>lexicalEnvironment := lexicalEnvironment realm1,
           heap := copied_heap m target src (heap realm1),
           generator := Some (g\<lparr>body := body g @ [?entry]\<rparr>)\<rparr>)"
    using assms(4) frame
    by (simp add: emitResidualLoopIfSafe_def Let_def
        residual_loop_try_effects [OF assms(5,6)] assms(7) accept)
  then have ev: "ForInStatement_evaluator m ast realm
      = (Inr UndefinedValue,
         realm3\<lparr>lexicalEnvironment := lexicalEnvironment realm1,
           heap := copied_heap m target src (heap realm1),
           generator := Some (g\<lparr>body := body g @ [?entry]\<rparr>)\<rparr>)"
    by (simp add: ForInStatement_evaluator_def ForInStatement_try_var [OF assms(1-4)])
  have len: "length names \<le> 1" using bound by auto
  have build: "\<forall>n. names = [n] \<longrightarrow>
         boundName = Some (Identifier n)
         \<and> (\<forall>nodes ctx c. buildNode ?entry nodes ctx c =
              (ForInStatement (VariableDeclaration ''var'' [(Identifier n, UndefinedNode)])
                 (node_at nodes 0)
                 (BlockStatement
                    [ExpressionStatement
                       (AssignmentExpression ''=''
                          (MemberExpression (node_at nodes 1) (Identifier n) True)
                          (MemberExpression (node_at nodes 2) (Identifier n) True))]),
               c))
         \<and> (\<forall>obj tgt source' tgt1 source1 ctx c.
              buildNode ?entry [obj, tgt, source', tgt1, source1] ctx c =
              (ForInStatement (VariableDeclaration ''var'' [(Identifier n, UndefinedNode)]) obj
                 (BlockStatement
                    [ExpressionStatement
                       (AssignmentExpression ''=''
                          (MemberExpression tgt (Identifier n) True)
                          (MemberExpression source' (Identifier n) True))]),
               c))
         \<and> (\<forall>gen ctx c obj c1 tgt c2 source' c3 tgt1 c4 source1 c5.
              serializeValue ctx sourceObject c = (obj, c1)
              \<and> serializeValue ctx targetObject c1 = (tgt, c2)
              \<and> serializeValue ctx sourceObject c2 = (source', c3)
              \<and> serializeValue ctx targetObject c3 = (tgt1, c4)
              \<and> serializeValue ctx sourceObject c4 = (source1, c5)
              \<longrightarrow> serialize (gen\<lparr>body := [?entry]\<rparr>) ctx c
                = emit ctx
                    (ForInStatement (VariableDeclaration ''var'' [(Identifier n, UndefinedNode)])
                       obj
                       (BlockStatement
                          [ExpressionStatement
                             (AssignmentExpression ''=''
                                (MemberExpression tgt (Identifier n) True)
                                (MemberExpression source' (Identifier n) True))])) c5)"
  proof (intro allI impI)
    fix n assume n: "names = [n]"
    then have b: "boundName = Some (Identifier n)" using bound by simp
    have lh: "lh_node (left ast) = VariableDeclaration ''var'' [(Identifier n, UndefinedNode)]"
      using assms(1) n by simp
    have general: "\<forall>nodes ctx c. buildNode ?entry nodes ctx c =
              (ForInStatement (VariableDeclaration ''var'' [(Identifier n, UndefinedNode)])
                 (node_at nodes 0)
                 (BlockStatement
                    [ExpressionStatement
                       (AssignmentExpression ''=''
                          (MemberExpression (node_at nodes 1) (Identifier n) True)
                          (MemberExpression (node_at nodes 2) (Identifier n) True))]),
               c)"
      by (simp add: residual_loop_def Let_def b lh)
    have five: "\<forall>obj tgt source' tgt1 source1 ctx c.
              buildNode ?entry [obj, tgt, source', tgt1, source1] ctx c =
              (ForInStatement (VariableDeclaration ''var'' [(Identifier n, UndefinedNode)]) obj
                 (BlockStatement
                    [ExpressionStatement
                       (AssignmentExpression ''=''
                          (MemberExpression tgt (Identifier n) True)
                          (MemberExpression source' (Identifier n) True))]),
               c)"
      by (simp add: residual_loop_def node_at_def Let_def b lh)
    have ser: "\<forall>gen ctx c obj c1 tgt c2 source' c3 tgt1 c4 source1 c5.
              serializeValue ctx sourceObject c = (obj, c1)
              \<and> serializeValue ctx targetObject c1 = (tgt, c2)
              \<and> serializeValue ctx sourceObject c2 = (source', c3)
              \<and> serializeValue ctx targetObject c3 = (tgt1, c4)
              \<and> serializeValue ctx sourceObject c4 = (source1, c5)
              \<longrightarrow> serialize (gen\<lparr>body := [?entry]\<rparr>) ctx c
                = emit ctx
                    (ForInStatement (VariableDeclaration ''var'' [(Identifier n, UndefinedNode)])
                       obj
                       (BlockStatement
                          [ExpressionStatement
                             (AssignmentExpression ''=''
                                (MemberExpression tgt (Identifier n) True)
                                (MemberExpression source' (Identifier n) True))])) c5"
      unfolding b t s lh [symmetric]
    proof (intro allI impI, elim conjE)
      fix gen :: "'a Generator" and ctx :: "'a SerializationContext" and c obj c1 tgt c2 source' c3 tgt1 c4 source1 c5
      assume "serializeValue ctx (ObjectValue src) c = (obj, c1)"
        and "serializeValue ctx (ObjectValue target) c1 = (tgt, c2)"
        and "serializeValue ctx (ObjectValue src) c2 = (source', c3)"
        and "serializeValue ctx (ObjectValue target) c3 = (tgt1, c4)"
        and "serializeValue ctx (ObjectValue src) c4 = (source1, c5)"
      then show "serialize (gen\<lparr>body :=
            [\<lparr>declared = None,
              args = [ObjectValue src, ObjectValue target, ObjectValue src, ObjectValue target,
                      ObjectValue src],
              buildNode = residual_loop (left ast) (Some (Identifier n)),
              isPure = None\<rparr>]\<rparr>) ctx c
        = emit ctx
            (ForInStatement (lh_node (left ast)) obj
               (BlockStatement
                  [ExpressionStatement
                     (AssignmentExpression ''=''
                        (MemberExpression tgt (Identifier n) True)
                        (MemberExpression source' (Identifier n) True))])) c5"
        by (rule residual_loop_serialize)
    qed
    from b general five ser
    show "boundName = Some (Identifier n)
         \<and> (\<forall>nodes ctx c. buildNode ?entry nodes ctx c =
              (ForInStatement (VariableDeclaration ''var'' [(Identifier n, UndefinedNode)])
                 (node_at nodes 0)
                 (BlockStatement
                    [ExpressionStatement
                       (AssignmentExpression ''=''
                          (MemberExpression (node_at nodes 1) (Identifier n) True)
                          (MemberExpression (node_at nodes 2) (Identifier n) True))]),
               c))
         \<and> (\<forall>obj tgt source' tgt1 source1 ctx c.
              buildNode ?entry [obj, tgt, source', tgt1, source1] ctx c =
              (ForInStatement (VariableDeclaration ''var'' [(Identifier n, UndefinedNode)]) obj
                 (BlockStatement
                    [ExpressionStatement
                       (AssignmentExpression ''=''
                          (MemberExpression tgt (Identifier n) True)
                          (MemberExpression source' (Identifier n) True))]),
               c))
         \<and> (\<forall>gen ctx c obj c1 tgt c2 source' c3 tgt1 c4 source1 c5.
              serializeValue ctx sourceObject c = (obj, c1)
              \<and> serializeValue ctx targetObject c1 = (tgt, c2)
              \<and> serializeValue ctx sourceObject c2 = (source', c3)
              \<and> serializeValue ctx targetObject c3 = (tgt1, c4)
              \<and> serializeValue ctx sourceObject c4 = (source1, c5)
              \<longrightarrow> serialize (gen\<lparr>body := [?entry]\<rparr>) ctx c
                = emit ctx
                    (ForInStatement (VariableDeclaration ''var'' [(Identifier n, UndefinedNode)])
                       obj
                       (BlockStatement
                          [ExpressionStatement
                             (AssignmentExpression ''=''
                                (MemberExpression tgt (Identifier n) True)
                                (MemberExpression source' (Identifier n) True))])) c5)"
      by blast
  qed
  show ?thesis
    apply (rule exI [of _ target], rule exI [of _ src], rule exI [of _ ?entry], intro conjI)
            apply (rule t)
           apply (rule s)
          apply (rule ev)
         apply (simp add: frame)
        apply simp
       apply simp
      apply (simp add: t s)
     apply (rule len)
    apply (rule build)
    done
qed

text \<open>
  Claim C4 (as amended). Let a for-in statement with a \<open>var\<close> declaration have a head that
  evaluates to a partial and simple object, and let the effects of the speculatively evaluated
  body be rejected (not a value with an empty generator, no modified binding and a single
  modified property from which a target object and a source object are recognised), no
  invariant failing. Then the evaluator passes the diagnostic \<open>PP0013\<close> to the error handler,
  with the severity \<open>FatalError\<close>, and throws \<open>FatalError\<close>: it does not return. The heap and
  the generator are as before and the lexical environment of the running context is restored.
\<close>

theorem ForInStatement_rejected_body:
  assumes "left ast = LeftDeclaration ''var'' names"
    and "ForInOfHeadEvaluation m [] realm = (Inr ob, realm1)"
    and "isPartialObject (heap realm1) ob" and "isSimpleObject (heap realm1) ob"
    and "speculation_start (left ast) realm1 = (Inr (absStr, boundName, blockEnv), realm3)"
    and "evaluateNodeForEffects m blockEnv realm3 = Inr effects"
    and "analyse_effects absStr effects = Inr None"
  shows "ForInStatement_evaluator m ast realm
        = (Inl FatalError,
           realm3\<lparr>lexicalEnvironment := lexicalEnvironment realm1,
             handledErrors := handledErrors realm1 @ [PP0013 (right_loc ast)]\<rparr>)
    \<and> errorCode (PP0013 (right_loc ast)) = ''PP0013''
    \<and> severity (PP0013 (right_loc ast)) = ''FatalError''
    \<and> heap realm3 = heap realm1 \<and> generator realm3 = generator realm1"
proof -
  note frame = speculation_start_frame [OF assms(5)]
  have "emitResidualLoopIfSafe m (left ast) (right_loc ast) ob realm1
      = (Inl FatalError,
         realm3\<lparr>lexicalEnvironment := lexicalEnvironment realm1,
           handledErrors := handledErrors realm1 @ [PP0013 (right_loc ast)]\<rparr>)"
    using assms(4) frame
    by (simp add: emitResidualLoopIfSafe_def Let_def
        residual_loop_try_effects [OF assms(5,6)] assms(7) reportError_PP0013)
  then have "ForInStatement_evaluator m ast realm
      = (Inl FatalError,
         realm3\<lparr>lexicalEnvironment := lexicalEnvironment realm1,
           handledErrors := handledErrors realm1 @ [PP0013 (right_loc ast)]\<rparr>)"
    by (simp add: ForInStatement_evaluator_def ForInStatement_try_var [OF assms(1-4)])
  then show ?thesis using frame by (simp add: PP0013_def)
qed

text \<open>The example: the loop variable and the block environment that the evaluator prepares.\<close>

definition example_absStr :: Value where
  "example_absStr = AbstractValue 0 (TypesDomain StringValue_class) TopVal None []"

definition example_blockEnv :: LexicalEnvironment where
  "example_blockEnv =
     LexicalEnvironment
       (Declarative
          \<lparr>bindings = [''k'' \<mapsto> \<lparr>value' = Some example_absStr, initialized = Some True,
                             mutable = Some True, deletable = Some False, strict = None\<rparr>],
           isReadOnly = False\<rparr>)
       (Some (LexicalEnvironment (OtherEnvironmentRecord 0) None))"

lemma example_speculation_start:
  "fst (speculation_start (left example_for_in) example_for_in_realm)
      = Inr (example_absStr, Some (Identifier ''k''), example_blockEnv)
   \<and> nextAbstractId (snd (speculation_start (left example_for_in) example_for_in_realm)) = 1"
  by (simp add: speculation_start_def loop_setup_def NewDeclarativeEnvironment_def
      createAbstract_def example_for_in_def example_for_in_realm_def
      CreateMutableBinding_def InitializeBinding_def recordModifiedBinding_def
      truthy_ref_def truthy_def example_absStr_def example_blockEnv_def Let_def)

lemma example_object_bits:
  "isPartialObject (heap example_for_in_realm) (ObjectValue 0)
   \<and> isSimpleObject (heap example_for_in_realm) (ObjectValue 0)"
  by (simp add: isPartialObject_def isSimpleObject_def value_has_def example_for_in_realm_def
      example_heap_def)

lemma example_copy_accepted:
  "analyse_effects example_absStr (example_copy_effects example_absStr)
     = Inr (Some (ObjectValue 1, ObjectValue 0))"
  by (simp add: analyse_effects_def example_copy_effects_def example_generator_def
      inspect_property_def arg_at_def find_source.simps isObjectValue_def example_absStr_def)

lemma example_copied_heap:
  "properties (copied_heap example_collaborators 1 0 example_heap 1)
     = [(''a'', \<lparr>writable = Some True, enumerable = Some True, configurable = Some True,
               desc_value = Some (BooleanValue True), desc_get = None, desc_set = None\<rparr>)]
   \<and> partial (copied_heap example_collaborators 1 0 example_heap 1)
   \<and> simple (copied_heap example_collaborators 1 0 example_heap 1)
   \<and> partial (copied_heap example_collaborators 1 0 example_heap 0)"
  by (simp add: copied_heap_def example_collaborators_def example_heap_def makePartial_def
      makeSimple_def makeNotPartial_def truthy_def Let_def)

text \<open>
  The same example with an abstract head whose single candidate is the object 0, and a
  serialization context that names the object 0 \<open>s\<close> and the object 1 \<open>t\<close> and records what
  is emitted: the residual loop is \<open>for (var k in s) { t[k] = s[k]; }\<close>.
\<close>

definition example_abstract_head :: Value where
  "example_abstract_head =
     AbstractValue 8 (TypesDomain ObjectValue_class) (Elements [ObjectValue 0]) None []"

definition example_abstract_collaborators :: "SerializerCall list Collaborators" where
  "example_abstract_collaborators =
     example_collaborators\<lparr>ForInOfHeadEvaluation :=
       (\<lambda>names realm. (Inr example_abstract_head, realm))\<rparr>"

definition example_naming_context :: "SerializerCall list SerializationContext" where
  "example_naming_context =
     recording_context
       (\<lambda>v. case v of ObjectValue n \<Rightarrow> Identifier (if n = 0 then ''s'' else ''t'')
                     | _ \<Rightarrow> NullLiteral)
       (\<lambda>v. False) (\<lambda>object key desc. BlockStatement [])"

definition example_residual_loop :: Stmt where
  "example_residual_loop =
     ForInStatement (VariableDeclaration ''var'' [(Identifier ''k'', UndefinedNode)])
       (Identifier ''s'')
       (BlockStatement
          [ExpressionStatement
             (AssignmentExpression ''=''
                (MemberExpression (Identifier ''t'') (Identifier ''k'') True)
                (MemberExpression (Identifier ''s'') (Identifier ''k'') True))])"

lemma example_naming:
  "serializeValue example_naming_context (ObjectValue 0) calls = (Identifier ''s'', calls)"
  "serializeValue example_naming_context (ObjectValue 1) calls = (Identifier ''t'', calls)"
  "emit example_naming_context statement calls = calls @ [Emitted statement]"
  by (simp_all add: example_naming_context_def recording_context_sel)

lemma example_abstract_bits:
  "isPartialObject (heap example_for_in_realm) example_abstract_head
   \<and> isSimpleObject (heap example_for_in_realm) example_abstract_head"
  by (simp add: isPartialObject_def isSimpleObject_def value_has_def object_has_def
      example_abstract_head_def example_for_in_realm_def example_heap_def)

text \<open>
  What the example shows, with the collaborators \<open>m\<close>: the value returned, the arguments of
  the entries of the generator, what serializing the generator emits, the properties of the
  target and the diagnostics.
\<close>

definition example_residual_outcome :: "SerializerCall list Collaborators \<Rightarrow> bool" where
  "example_residual_outcome m =
     (fst (ForInStatement_evaluator m example_for_in example_for_in_realm) = Inr UndefinedValue
      \<and> map args (body (the (generator (snd (ForInStatement_evaluator m example_for_in
            example_for_in_realm)))))
         = [[ObjectValue 0, ObjectValue 1, ObjectValue 0, ObjectValue 1, ObjectValue 0]]
      \<and> serialize (the (generator (snd (ForInStatement_evaluator m example_for_in
            example_for_in_realm)))) example_naming_context []
         = [Emitted example_residual_loop]
      \<and> properties (heap (snd (ForInStatement_evaluator m example_for_in
            example_for_in_realm)) 1)
         = [(''a'', \<lparr>writable = Some True, enumerable = Some True, configurable = Some True,
                   desc_value = Some (BooleanValue True), desc_get = None, desc_set = None\<rparr>)]
      \<and> handledErrors (snd (ForInStatement_evaluator m example_for_in
            example_for_in_realm)) = [])"

theorem ForInStatement_residual_loop_witness:
  "example_residual_outcome example_collaborators
   \<and> example_residual_outcome example_abstract_collaborators"
proof -
  let ?realm3 = "snd (speculation_start (left example_for_in) example_for_in_realm)"
  have l: "left example_for_in = LeftDeclaration ''var'' [''k'']"
    by (simp add: example_for_in_def)
  have start: "speculation_start (left example_for_in) example_for_in_realm
      = (Inr (example_absStr, Some (Identifier ''k''), example_blockEnv), ?realm3)"
    using example_speculation_start by (simp add: prod_eq_iff)
  have g: "generator example_for_in_realm = Some example_generator"
    by (simp add: example_for_in_realm_def)
  have run: "example_residual_outcome m"
    if head: "ForInOfHeadEvaluation m [] example_for_in_realm = (Inr ob, example_for_in_realm)"
      and partial: "isPartialObject (heap example_for_in_realm) ob"
      and simple: "isSimpleObject (heap example_for_in_realm) ob"
      and shape: "ob = ObjectValue 0 \<or> ob = AbstractValue i t (Elements [ObjectValue 0]) k a"
      and fx: "evaluateNodeForEffects m = evaluateNodeForEffects example_collaborators"
      and en: "EnumerableOwnProperties m = EnumerableOwnProperties example_collaborators"
      and st: "Set_property m = Set_property example_collaborators"
    for m ob i t k a
  proof -
    have fx': "evaluateNodeForEffects m example_blockEnv ?realm3
        = Inr (example_copy_effects example_absStr)"
      unfolding fx using example_speculation_start
      by (simp add: example_collaborators_def example_absStr_def)
    have heap: "copied_heap m 1 0 = copied_heap example_collaborators 1 0"
      by (simp add: copied_heap_def en st fun_eq_iff)
    from ForInStatement_residual_loop [OF l head partial simple start fx' example_copy_accepted
        shape g]
    show ?thesis
    proof (elim exE conjE)
      fix target src entry
      assume t: "ObjectValue 1 = ObjectValue target" and s: "ObjectValue 0 = ObjectValue src"
        and r: "ForInStatement_evaluator m example_for_in example_for_in_realm
          = (Inr UndefinedValue,
             ?realm3\<lparr>lexicalEnvironment := lexicalEnvironment example_for_in_realm,
               heap := copied_heap m target src (heap example_for_in_realm),
               generator := Some (example_generator\<lparr>body := body example_generator @ [entry]\<rparr>)\<rparr>)"
        and h: "handledErrors ?realm3 = handledErrors example_for_in_realm"
        and a: "args entry
          = [ObjectValue 0, ObjectValue 1, ObjectValue 0, ObjectValue 1, ObjectValue 0]"
        and b: "\<forall>n. [''k''] = [n] \<longrightarrow>
           Some (Identifier ''k'') = Some (Identifier n)
           \<and> (\<forall>nodes ctx c. buildNode entry nodes ctx c =
              (ForInStatement (VariableDeclaration ''var'' [(Identifier n, UndefinedNode)])
                 (node_at nodes 0)
                 (BlockStatement
                    [ExpressionStatement
                       (AssignmentExpression ''=''
                          (MemberExpression (node_at nodes 1) (Identifier n) True)
                          (MemberExpression (node_at nodes 2) (Identifier n) True))]),
               c))
           \<and> (\<forall>obj tgt source' tgt1 source1 ctx c.
              buildNode entry [obj, tgt, source', tgt1, source1] ctx c =
              (ForInStatement (VariableDeclaration ''var'' [(Identifier n, UndefinedNode)]) obj
                 (BlockStatement
                    [ExpressionStatement
                       (AssignmentExpression ''=''
                          (MemberExpression tgt (Identifier n) True)
                          (MemberExpression source' (Identifier n) True))]),
               c))
           \<and> (\<forall>gen ctx c obj c1 tgt c2 source' c3 tgt1 c4 source1 c5.
              serializeValue ctx (ObjectValue 0) c = (obj, c1)
              \<and> serializeValue ctx (ObjectValue 1) c1 = (tgt, c2)
              \<and> serializeValue ctx (ObjectValue 0) c2 = (source', c3)
              \<and> serializeValue ctx (ObjectValue 1) c3 = (tgt1, c4)
              \<and> serializeValue ctx (ObjectValue 0) c4 = (source1, c5)
              \<longrightarrow> serialize (gen\<lparr>body := [entry]\<rparr>) ctx c
                = emit ctx
                    (ForInStatement (VariableDeclaration ''var'' [(Identifier n, UndefinedNode)])
                       obj
                       (BlockStatement
                          [ExpressionStatement
                             (AssignmentExpression ''=''
                                (MemberExpression tgt (Identifier n) True)
                                (MemberExpression source' (Identifier n) True))])) c5)"
      from t s have ts: "target = 1" "src = 0" by simp_all
      have gen: "example_generator\<lparr>body := body example_generator @ [entry]\<rparr>
          = example_generator\<lparr>body := [entry]\<rparr>"
        by (simp add: example_generator_def)
      note b' = b [rule_format, OF refl]
      note emits = b' [THEN conjunct2, THEN conjunct2, THEN conjunct2, rule_format]
      have "serialize (example_generator\<lparr>body := [entry]\<rparr>) example_naming_context []
          = emit example_naming_context example_residual_loop []"
        unfolding example_residual_loop_def
        by (rule emits) (intro conjI, (rule example_naming)+)
      then have ser: "serialize (example_generator\<lparr>body := [entry]\<rparr>) example_naming_context []
          = [Emitted example_residual_loop]"
        by (simp add: example_naming(3))
      have e1: "fst (ForInStatement_evaluator m example_for_in example_for_in_realm)
          = Inr UndefinedValue"
        unfolding r by simp
      have e2: "generator (snd (ForInStatement_evaluator m example_for_in example_for_in_realm))
          = Some (example_generator\<lparr>body := [entry]\<rparr>)"
        unfolding r gen by simp
      have e3: "heap (snd (ForInStatement_evaluator m example_for_in example_for_in_realm))
          = copied_heap example_collaborators 1 0 example_heap"
        unfolding r ts heap by (simp add: example_for_in_realm_def)
      have e4: "handledErrors (snd (ForInStatement_evaluator m example_for_in
          example_for_in_realm)) = []"
        unfolding r using h by (simp add: example_for_in_realm_def)
      show ?thesis
        unfolding example_residual_outcome_def e1 e2 e3 e4
        using a ser example_copied_heap by simp
    qed
  qed
  have concrete: "ForInOfHeadEvaluation example_collaborators [] example_for_in_realm
      = (Inr (ObjectValue 0), example_for_in_realm)"
    by (simp add: example_collaborators_def)
  have abstract: "ForInOfHeadEvaluation example_abstract_collaborators [] example_for_in_realm
      = (Inr example_abstract_head, example_for_in_realm)"
    by (simp add: example_abstract_collaborators_def)
  have shape: "example_abstract_head = ObjectValue 0
      \<or> example_abstract_head
          = AbstractValue 8 (TypesDomain ObjectValue_class) (Elements [ObjectValue 0]) None []"
    by (simp add: example_abstract_head_def)
  have "example_residual_outcome example_collaborators"
    by (rule run [OF concrete conjunct1 [OF example_object_bits]
          conjunct2 [OF example_object_bits]]) simp_all
  moreover have "example_residual_outcome example_abstract_collaborators"
    by (rule run [OF abstract conjunct1 [OF example_abstract_bits]
          conjunct2 [OF example_abstract_bits] shape])
      (simp_all add: example_abstract_collaborators_def)
  ultimately show ?thesis by (rule conjI)
qed

text \<open>The same example with the empty body \<open>{}\<close>: its evaluation has no effects.\<close>

definition example_empty_body :: "SerializerCall list Collaborators" where
  "example_empty_body =
     example_collaborators\<lparr>evaluateNodeForEffects :=
       (\<lambda>blockEnv realm. Inr (Inr UndefinedValue, example_generator, [], [], []))\<rparr>"

lemma example_empty_rejected:
  "analyse_effects example_absStr (Inr UndefinedValue, example_generator, [], [], []) = Inr None"
  by (simp add: analyse_effects_def)

theorem ForInStatement_rejected_body_witness:
  "fst (ForInStatement_evaluator example_empty_body example_for_in example_for_in_realm)
      = Inl FatalError
   \<and> handledErrors (snd (ForInStatement_evaluator example_empty_body example_for_in
         example_for_in_realm)) = [PP0013 None]
   \<and> heap (snd (ForInStatement_evaluator example_empty_body example_for_in
         example_for_in_realm)) = example_heap"
proof -
  let ?realm3 = "snd (speculation_start (left example_for_in) example_for_in_realm)"
  have l: "left example_for_in = LeftDeclaration ''var'' [''k'']"
    by (simp add: example_for_in_def)
  have head: "ForInOfHeadEvaluation example_empty_body [] example_for_in_realm
      = (Inr (ObjectValue 0), example_for_in_realm)"
    by (simp add: example_empty_body_def example_collaborators_def)
  have start: "speculation_start (left example_for_in) example_for_in_realm
      = (Inr (example_absStr, Some (Identifier ''k''), example_blockEnv), ?realm3)"
    using example_speculation_start by (simp add: prod_eq_iff)
  have fx: "evaluateNodeForEffects example_empty_body example_blockEnv ?realm3
      = Inr (Inr UndefinedValue, example_generator, [], [], [])"
    by (simp add: example_empty_body_def)
  show ?thesis
    using ForInStatement_rejected_body [OF l head conjunct1 [OF example_object_bits]
      conjunct2 [OF example_object_bits] start fx example_empty_rejected]
    by (simp add: example_for_in_realm_def example_for_in_def)
qed

lemma example_empty_body_result:
  "fst (ForInStatement_evaluator example_empty_body example_for_in example_for_in_realm)
      = Inl FatalError
   \<and> handledErrors (snd (ForInStatement_evaluator example_empty_body example_for_in
         example_for_in_realm)) = [PP0013 None]"
proof -
  let ?realm3 = "snd (speculation_start (left example_for_in) example_for_in_realm)"
  have l: "left example_for_in = LeftDeclaration ''var'' [''k'']"
    by (simp add: example_for_in_def)
  have head: "ForInOfHeadEvaluation example_empty_body [] example_for_in_realm
      = (Inr (ObjectValue 0), example_for_in_realm)"
    by (simp add: example_empty_body_def example_collaborators_def)
  have start: "speculation_start (left example_for_in) example_for_in_realm
      = (Inr (example_absStr, Some (Identifier ''k''), example_blockEnv), ?realm3)"
    using example_speculation_start by (simp add: prod_eq_iff)
  have fx: "evaluateNodeForEffects example_empty_body example_blockEnv ?realm3
      = Inr (Inr UndefinedValue, example_generator, [], [], [])"
    by (simp add: example_empty_body_def)
  have frame: "handledErrors ?realm3 = []"
    using speculation_start_frame [OF start] by (simp add: example_for_in_realm_def)
  have r: "right_loc example_for_in = None"
    by (simp add: example_for_in_def)
  have "ForInStatement_try example_empty_body example_for_in example_for_in_realm
      = emitResidualLoopIfSafe example_empty_body (left example_for_in)
          (right_loc example_for_in) (ObjectValue 0) example_for_in_realm"
    using ForInStatement_try_var [OF l head] example_object_bits by simp
  also have "\<dots> = (Inl FatalError,
      ?realm3\<lparr>lexicalEnvironment := lexicalEnvironment example_for_in_realm,
        handledErrors := [PP0013 None]\<rparr>)"
    using example_object_bits frame r
    by (simp add: emitResidualLoopIfSafe_def Let_def residual_loop_try_effects [OF start fx]
        example_empty_rejected reportError_PP0013)
  finally show ?thesis by (simp add: ForInStatement_evaluator_def)
qed

text \<open>
  Claim C4 as stated fails: for the for-in statement \<open>for (var k in o) {}\<close> over a partial and
  simple object, whose body is not of the accepted shape, the diagnostic reported has the
  severity \<open>FatalError\<close>, not \<open>RecoverableError\<close>, and the evaluator throws \<open>FatalError\<close>
  instead of returning.
\<close>

theorem ForInStatement_rejected_body_counterexample:
  "fst (ForInStatement_evaluator example_empty_body example_for_in example_for_in_realm)
      = Inl FatalError
   \<and> map severity (handledErrors (snd (ForInStatement_evaluator example_empty_body
         example_for_in example_for_in_realm))) = [''FatalError'']
   \<and> ''FatalError'' \<noteq> ''RecoverableError''"
  by (simp add: example_empty_body_result PP0013_def)

end
